theory Spec2Isabelle
  imports Main
begin

section \<open>Products backend: data model\<close>

text \<open>
  The program is one Express application (\<^verbatim>\<open>mongo_server.js\<close>): an authentication
  middleware and six route handlers over two Mongoose collections. The embedding keeps
  the shape of the source: each handler is a function from the request and the store to
  the response and the new store, the middleware either sends a response or calls the
  next handler, and every \<^verbatim>\<open>try/catch\<close> of the source is a case split on an
  error value.

  An ObjectId is written as JSON shows it, a string of hexadecimal digits.
\<close>

type_synonym ObjectId = string

text \<open>\<^verbatim>\<open>sellerSchema\<close> and \<^verbatim>\<open>productSchema\<close>, with the \<^verbatim>\<open>_id\<close> Mongoose adds.\<close>

record seller =
  seller_id :: ObjectId
  username :: string
  password :: string

record product =
  product_id :: ObjectId
  name :: string
  description :: string

text \<open>The two collections, in insertion order.\<close>

record store =
  sellers :: "seller list"
  products :: "product list"

text \<open>
  What a handler sends: \<^verbatim>\<open>res.json\<close> sends a JSON value, \<^verbatim>\<open>res.sendStatus\<close> a line
  of plain text. A product document inside a JSON value is kept as the record.
\<close>

datatype json =
    JStr string
  | JProduct product
  | JArr "json list"
  | JObj "(string \<times> json) list"

datatype content = Text string | Json json

record response =
  status :: nat
  sent :: content

text \<open>What the library calls of a handler can raise; every handler catches all of them.\<close>

datatype error =
    ValidationError
  | CastError
  | DuplicateKey
  | StoreUnavailable
  | BcryptError
  | JsonWebTokenError

text \<open>
  The payload of a token: the claims given to \<^verbatim>\<open>jwt.sign\<close>, and the issue and expiry
  times (seconds) the library adds.
\<close>

record jwt =
  claims :: "(string \<times> string) list"
  iat :: nat
  exp :: "nat option"

datatype route =
    POST_sellers_signup
  | POST_sellers_login
  | GET_products
  | POST_products
  | PUT_products_id
  | DELETE_products_id

text \<open>
  A JSON value in a request body: \<^verbatim>\<open>express.json()\<close> hands the handlers whatever
  the client sent, a string or not. A number is kept as an integer (of a number the
  handlers only test whether it is zero).
\<close>

datatype jsval =
    VNull
  | VBool bool
  | VNum int
  | VStr string
  | VArr "jsval list"
  | VObj "(string \<times> jsval) list"

text \<open>
  A request, once Express has matched its method and path to one of the six routes and
  \<^verbatim>\<open>express.json()\<close> has parsed the body. \<open>headers_authorization\<close> is
  \<^verbatim>\<open>req.headers['authorization']\<close>, \<open>params_id\<close> is \<^verbatim>\<open>req.params.id\<close>, \<open>user\<close>
  is \<^verbatim>\<open>req.user\<close>. The body is a finite map from field names to JSON values: a
  field that is absent (\<^verbatim>\<open>undefined\<close> in the source) is \<open>None\<close>. A request that
  matches no route, which Express answers itself, is outside the model.
\<close>

record request =
  route :: route
  headers_authorization :: "string option"
  params_id :: string
  body :: "string \<rightharpoonup> jsval"
  user :: "jwt option"

text \<open>
  Everything a request meets outside the source file: the environment variable, the
  clock, and what the libraries answer. They are parameters of the model, so that every
  theorem holds for every behaviour of bcrypt, jsonwebtoken, the BSON cast and the
  database connection.
  \<^item> \<open>jwt_verify w token secret\<close> is the payload \<^verbatim>\<open>jwt.verify\<close> hands to its
    callback, \<open>None\<close> when it hands an error (bad signature, expired, malformed, no
    secret);
  \<^item> \<open>jwt_encode w secret payload\<close> is the signed compact serialisation of a payload;
  \<^item> \<open>bcrypt_hash w data rounds\<close> is what \<^verbatim>\<open>bcrypt.hash\<close> resolves to with the salt
    drawn for this request, \<open>bcrypt_compare w data hash\<close> what \<^verbatim>\<open>bcrypt.compare\<close>
    resolves to; \<open>None\<close> is a rejected promise (bcrypt rejects data that is not a
    string);
  \<^item> \<open>cast_String w v\<close> is the string Mongoose stores for a value \<open>v\<close> that is not
    a string at a path of type String, \<open>None\<close> when it cannot cast the value;
  \<^item> \<open>cast_filter w v\<close> is the condition on a stored string that the query
    \<^verbatim>\<open>{ path: v }\<close> states for a value \<open>v\<close> that is not a string, \<open>None\<close> when
    Mongoose cannot cast the query and rejects it;
  \<^item> \<open>new_ObjectId w\<close> is the identifier Mongoose generates for a new document;
  \<^item> \<open>cast_ObjectId w s\<close> is the ObjectId a query reads in the string \<open>s\<close>, \<open>None\<close>
    when Mongoose cannot cast it and rejects the query;
  \<^item> \<open>store_throws w\<close> says that the database call of this request is rejected
    (connection lost, timeout); a rejected call is taken to leave the collections as
    they were.
\<close>

record world =
  JWT_SECRET :: "string option"
  clock :: nat
  jwt_verify :: "string \<Rightarrow> string option \<Rightarrow> jwt option"
  jwt_encode :: "string \<Rightarrow> jwt \<Rightarrow> string"
  bcrypt_hash :: "jsval \<Rightarrow> nat \<Rightarrow> string option"
  bcrypt_compare :: "jsval \<Rightarrow> string \<Rightarrow> bool option"
  cast_String :: "jsval \<Rightarrow> string option"
  cast_filter :: "jsval \<Rightarrow> (string \<Rightarrow> bool) option"
  new_ObjectId :: ObjectId
  cast_ObjectId :: "string \<Rightarrow> ObjectId option"
  store_throws :: bool

section \<open>JavaScript and Express primitives\<close>

text \<open>
  \<^verbatim>\<open>!v\<close> on a header or a token, which is a string or \<^verbatim>\<open>undefined\<close>: true for
  \<^verbatim>\<open>undefined\<close> and for the empty string.
\<close>

definition falsy :: "string option \<Rightarrow> bool" where
  "falsy v = (case v of None \<Rightarrow> True | Some s \<Rightarrow> s = [])"

text \<open>The string in a header or token that has passed the \<open>falsy\<close> test.\<close>

definition val :: "string option \<Rightarrow> string" where
  "val v = (case v of None \<Rightarrow> [] | Some s \<Rightarrow> s)"

text \<open>
  \<^verbatim>\<open>!v\<close> on a field of the body: true for \<^verbatim>\<open>undefined\<close>, \<^verbatim>\<open>null\<close>,
  \<^verbatim>\<open>false\<close>, zero and the empty string; false for every other string and number,
  for \<^verbatim>\<open>true\<close>, and for every array and object.
\<close>

fun falsy_field :: "jsval option \<Rightarrow> bool" where
  "falsy_field None = True"
| "falsy_field (Some VNull) = True"
| "falsy_field (Some (VBool b)) = (\<not> b)"
| "falsy_field (Some (VNum n)) = (n = 0)"
| "falsy_field (Some (VStr s)) = (s = [])"
| "falsy_field (Some (VArr vs)) = False"
| "falsy_field (Some (VObj kvs)) = False"

text \<open>The value of a field that has passed the \<open>falsy_field\<close> test.\<close>

definition field_value :: "jsval option \<Rightarrow> jsval" where
  "field_value v = (case v of None \<Rightarrow> VNull | Some x \<Rightarrow> x)"

text \<open>
  \<^verbatim>\<open>s.split(sep)\<close> for a separator of one character: the pieces between the
  separators, empty pieces included; the empty string gives one empty piece.
\<close>

fun split :: "char \<Rightarrow> string \<Rightarrow> string list" where
  "split sep [] = [[]]"
| "split sep (c # cs) =
     (if c = sep then [] # split sep cs
      else (case split sep cs of
              [] \<Rightarrow> [[c]]
            | piece # pieces \<Rightarrow> (c # piece) # pieces))"

text \<open>\<^verbatim>\<open>xs[i]\<close>: \<^verbatim>\<open>undefined\<close> out of range.\<close>

fun index :: "'a list \<Rightarrow> nat \<Rightarrow> 'a option" where
  "index [] i = None"
| "index (x # xs) 0 = Some x"
| "index (x # xs) (Suc i) = index xs i"

text \<open>
  The decimal digits of a number, for the status codes that have no registered message.
\<close>

fun digits :: "nat \<Rightarrow> nat \<Rightarrow> string" where
  "digits 0 n = []"
| "digits (Suc fuel) n =
     (if n < 10 then [char_of (48 + n)]
      else digits fuel (n div 10) @ [char_of (48 + n mod 10)])"

definition status_message :: "nat \<Rightarrow> string" where
  "status_message code =
     (if code = 200 then ''OK''
      else if code = 201 then ''Created''
      else if code = 400 then ''Bad Request''
      else if code = 401 then ''Unauthorized''
      else if code = 403 then ''Forbidden''
      else if code = 404 then ''Not Found''
      else if code = 500 then ''Internal Server Error''
      else digits (Suc code) code)"

text \<open>
  \<^verbatim>\<open>res.sendStatus(code)\<close>: Express sets the status and sends the registered status
  message as a plain-text body. \<^verbatim>\<open>res.status(code).json(v)\<close> sends \<open>v\<close>;
  \<^verbatim>\<open>res.json(v)\<close> leaves the status at 200.
\<close>

definition sendStatus :: "nat \<Rightarrow> response" where
  "sendStatus code = \<lparr>status = code, sent = Text (status_message code)\<rparr>"

definition status_json :: "nat \<Rightarrow> json \<Rightarrow> response" where
  "status_json code v = \<lparr>status = code, sent = Json v\<rparr>"

definition res_json :: "json \<Rightarrow> response" where
  "res_json v = status_json 200 v"

section \<open>jsonwebtoken\<close>

text \<open>
  The time spans \<^verbatim>\<open>expiresIn\<close> takes as a string: a decimal number and a unit, read
  in seconds. Only the units \<^verbatim>\<open>s\<close>, \<^verbatim>\<open>m\<close>, \<^verbatim>\<open>h\<close> and \<^verbatim>\<open>d\<close> are modelled.
\<close>

definition digit :: "char \<Rightarrow> nat option" where
  "digit c = map_of (zip ''0123456789'' [0, 1, 2, 3, 4, 5, 6, 7, 8, 9]) c"

fun number :: "nat \<Rightarrow> string \<Rightarrow> nat \<times> string" where
  "number acc [] = (acc, [])"
| "number acc (c # cs) =
     (case digit c of
        None \<Rightarrow> (acc, c # cs)
      | Some d \<Rightarrow> number (10 * acc + d) cs)"

definition unit_seconds :: "string \<Rightarrow> nat option" where
  "unit_seconds u =
     (if u = ''s'' then Some 1
      else if u = ''m'' then Some 60
      else if u = ''h'' then Some 3600
      else if u = ''d'' then Some 86400
      else None)"

definition timespan :: "string \<Rightarrow> nat option" where
  "timespan s =
     (case s of
        [] \<Rightarrow> None
      | c # cs \<Rightarrow>
          (case digit c of
             None \<Rightarrow> None
           | Some d \<Rightarrow>
               (case number 0 s of (n, u) \<Rightarrow>
                  (case unit_seconds u of
                     None \<Rightarrow> None
                   | Some k \<Rightarrow> Some (n * k)))))"

text \<open>
  \<^verbatim>\<open>jwt.sign(payload, secret, { expiresIn })\<close>: throws without a secret (or with an
  empty one); otherwise the payload gets the issue time \<open>iat\<close> and the expiry
  \<open>iat + timespan expiresIn\<close>, and is serialised and signed with the secret.
\<close>

definition jwt_sign :: "world \<Rightarrow> (string \<times> string) list \<Rightarrow> string option \<Rightarrow> string \<Rightarrow> error + string" where
  "jwt_sign w payload secret expiresIn =
     (case secret of
        None \<Rightarrow> Inl JsonWebTokenError
      | Some k \<Rightarrow>
          if k = [] then Inl JsonWebTokenError
          else (case timespan expiresIn of
                  None \<Rightarrow> Inl JsonWebTokenError
                | Some d \<Rightarrow>
                    Inr (jwt_encode w k
                          \<lparr>claims = payload, iat = clock w, exp = Some (clock w + d)\<rparr>)))"

section \<open>Mongoose models\<close>

text \<open>
  What Mongoose makes of a value at a path of type String: a string is kept, another
  value is cast. And what the query \<^verbatim>\<open>{ username: v }\<close> asks of a stored username:
  for a string, to be equal to it.
\<close>

definition to_String :: "world \<Rightarrow> jsval \<Rightarrow> string option" where
  "to_String w v = (case v of VStr s \<Rightarrow> Some s | _ \<Rightarrow> cast_String w v)"

definition username_filter :: "world \<Rightarrow> jsval \<Rightarrow> (string \<Rightarrow> bool) option" where
  "username_filter w v = (case v of VStr u \<Rightarrow> Some (\<lambda>x. x = u) | _ \<Rightarrow> cast_filter w v)"

text \<open>
  \<^verbatim>\<open>new Seller({ username, password: hashedPassword })\<close>: the document gets a fresh
  \<^verbatim>\<open>_id\<close>; a username that cannot be cast makes the document invalid, and
  \<^verbatim>\<open>save()\<close> rejects.
\<close>

definition new_Seller :: "world \<Rightarrow> jsval \<Rightarrow> string \<Rightarrow> error + seller" where
  "new_Seller w username' hashedPassword =
     (case to_String w username' of
        None \<Rightarrow> Inl ValidationError
      | Some u \<Rightarrow> Inr \<lparr>seller_id = new_ObjectId w, username = u, password = hashedPassword\<rparr>)"

text \<open>
  \<^verbatim>\<open>newSeller.save()\<close>: both paths are required (a required string must not be
  empty), \<^verbatim>\<open>username\<close> has a unique index, and so has \<^verbatim>\<open>_id\<close>.
\<close>

definition Seller_save :: "world \<Rightarrow> store \<Rightarrow> seller \<Rightarrow> error + store" where
  "Seller_save w st doc =
     (if username doc = [] \<or> password doc = [] then Inl ValidationError
      else if store_throws w then Inl StoreUnavailable
      else if \<exists>s \<in> set (sellers st). username s = username doc \<or> seller_id s = seller_id doc
        then Inl DuplicateKey
      else Inr (st\<lparr>sellers := sellers st @ [doc]\<rparr>))"

text \<open>
  \<^verbatim>\<open>Seller.findOne({ username })\<close>: the first seller whose username the query
  matches, or null; a query that cannot be cast rejects the call.
\<close>

definition Seller_findOne :: "world \<Rightarrow> store \<Rightarrow> jsval \<Rightarrow> error + seller option" where
  "Seller_findOne w st v =
     (case username_filter w v of
        None \<Rightarrow> Inl CastError
      | Some matches \<Rightarrow>
          if store_throws w then Inl StoreUnavailable
          else Inr (find (\<lambda>s. matches (username s)) (sellers st)))"

text \<open>\<^verbatim>\<open>Product.find()\<close>: every product.\<close>

definition Product_find :: "world \<Rightarrow> store \<Rightarrow> error + product list" where
  "Product_find w st =
     (if store_throws w then Inl StoreUnavailable else Inr (products st))"

text \<open>\<^verbatim>\<open>new Product({ name, description })\<close> and \<^verbatim>\<open>newProduct.save()\<close>.\<close>

definition new_Product :: "world \<Rightarrow> jsval \<Rightarrow> jsval \<Rightarrow> error + product" where
  "new_Product w name' description' =
     (case to_String w name' of
        None \<Rightarrow> Inl ValidationError
      | Some n \<Rightarrow>
          (case to_String w description' of
             None \<Rightarrow> Inl ValidationError
           | Some d \<Rightarrow> Inr \<lparr>product_id = new_ObjectId w, name = n, description = d\<rparr>))"

definition Product_save :: "world \<Rightarrow> store \<Rightarrow> product \<Rightarrow> error + store" where
  "Product_save w st doc =
     (if name doc = [] \<or> description doc = [] then Inl ValidationError
      else if store_throws w then Inl StoreUnavailable
      else if \<exists>p \<in> set (products st). product_id p = product_id doc then Inl DuplicateKey
      else Inr (st\<lparr>products := products st @ [doc]\<rparr>))"

text \<open>Replace, or remove, the first product with a given \<^verbatim>\<open>_id\<close>.\<close>

fun update_first :: "ObjectId \<Rightarrow> (product \<Rightarrow> product) \<Rightarrow> product list \<Rightarrow> product list" where
  "update_first i f [] = []"
| "update_first i f (p # ps) =
     (if product_id p = i then f p # ps else p # update_first i f ps)"

fun delete_first :: "ObjectId \<Rightarrow> product list \<Rightarrow> product list" where
  "delete_first i [] = []"
| "delete_first i (p # ps) =
     (if product_id p = i then ps else p # delete_first i ps)"

text \<open>
  \<^verbatim>\<open>Product.findByIdAndUpdate(id, { name, description }, { new: true })\<close>: the query
  \<^verbatim>\<open>{ _id: id }\<close> and the update are cast first; a string that is no ObjectId, or a
  new value that is no string and cannot be cast to one, rejects the call with a
  CastError. The answer is the document after the update, or null.
\<close>

definition Product_findByIdAndUpdate ::
  "world \<Rightarrow> store \<Rightarrow> string \<Rightarrow> jsval \<Rightarrow> jsval \<Rightarrow> error + (product option \<times> store)" where
  "Product_findByIdAndUpdate w st id' name' description' =
     (case cast_ObjectId w id' of
        None \<Rightarrow> Inl CastError
      | Some i \<Rightarrow>
          (case to_String w name' of
             None \<Rightarrow> Inl CastError
           | Some n \<Rightarrow>
               (case to_String w description' of
                  None \<Rightarrow> Inl CastError
                | Some d \<Rightarrow>
                    if store_throws w then Inl StoreUnavailable
                    else (case find (\<lambda>p. product_id p = i) (products st) of
                            None \<Rightarrow> Inr (None, st)
                          | Some p \<Rightarrow>
                              Inr (Some (p\<lparr>name := n, description := d\<rparr>),
                                   st\<lparr>products :=
                                        update_first i (\<lambda>q. q\<lparr>name := n, description := d\<rparr>)
                                          (products st)\<rparr>)))))"

text \<open>\<^verbatim>\<open>Product.findByIdAndDelete(id)\<close>: the deleted document, or null.\<close>

definition Product_findByIdAndDelete ::
  "world \<Rightarrow> store \<Rightarrow> string \<Rightarrow> error + (product option \<times> store)" where
  "Product_findByIdAndDelete w st id' =
     (case cast_ObjectId w id' of
        None \<Rightarrow> Inl CastError
      | Some i \<Rightarrow>
          if store_throws w then Inl StoreUnavailable
          else (case find (\<lambda>p. product_id p = i) (products st) of
                  None \<Rightarrow> Inr (None, st)
                | Some p \<Rightarrow>
                    Inr (Some p, st\<lparr>products := delete_first i (products st)\<rparr>)))"

section \<open>The middleware\<close>

text \<open>
  \<^verbatim>\<open>authenticateToken\<close>. \<open>Inl\<close> is the response the middleware sends itself, \<open>Inr\<close>
  the decoded payload with which it calls \<^verbatim>\<open>next()\<close>.
  \<^verbatim>\<open>authHeader && authHeader.split(' ')[1]\<close> is the header itself when the header is
  \<^verbatim>\<open>undefined\<close> or empty.
\<close>

definition header_token :: "string option \<Rightarrow> string option" where
  "header_token authHeader =
     (if falsy authHeader then authHeader
      else index (split CHR '' '' (val authHeader)) 1)"

definition authenticateToken :: "world \<Rightarrow> request \<Rightarrow> response + jwt" where
  "authenticateToken w req =
     (let authHeader = headers_authorization req;
          token = header_token authHeader
      in if falsy token then Inl (sendStatus 401)
         else (case jwt_verify w (val token) (JWT_SECRET w) of
                 None \<Rightarrow> Inl (sendStatus 403)
               | Some decoded \<Rightarrow> Inr decoded))"

section \<open>The route handlers\<close>

definition post_sellers_signup :: "world \<Rightarrow> store \<Rightarrow> request \<Rightarrow> response \<times> store" where
  "post_sellers_signup w st req =
     (let username' = body req ''username''; password' = body req ''password''
      in if falsy_field username' \<or> falsy_field password'
         then (status_json 400 (JObj [(''error'', JStr ''Username and password are required'')]), st)
         else (case bcrypt_hash w (field_value password') 10 of
                 None \<Rightarrow> (status_json 500 (JObj [(''error'', JStr ''Failed to register seller'')]), st)
               | Some hashedPassword \<Rightarrow>
                   (case new_Seller w (field_value username') hashedPassword of
                      Inl err \<Rightarrow>
                        (status_json 500 (JObj [(''error'', JStr ''Failed to register seller'')]), st)
                    | Inr newSeller \<Rightarrow>
                        (case Seller_save w st newSeller of
                           Inl err \<Rightarrow>
                             (status_json 500 (JObj [(''error'', JStr ''Failed to register seller'')]),
                              st)
                         | Inr st' \<Rightarrow>
                             (status_json 201
                                (JObj [(''message'', JStr ''Seller registered successfully'')]),
                              st')))))"

definition post_sellers_login :: "world \<Rightarrow> store \<Rightarrow> request \<Rightarrow> response \<times> store" where
  "post_sellers_login w st req =
     (let username' = body req ''username''; password' = body req ''password''
      in if falsy_field username' \<or> falsy_field password'
         then (status_json 400 (JObj [(''error'', JStr ''Username and password are required'')]), st)
         else (case Seller_findOne w st (field_value username') of
                 Inl err \<Rightarrow> (status_json 500 (JObj [(''error'', JStr ''Failed to login seller'')]), st)
               | Inr None \<Rightarrow> (status_json 401 (JObj [(''error'', JStr ''Invalid credentials'')]), st)
               | Inr (Some seller) \<Rightarrow>
                   (case bcrypt_compare w (field_value password') (password seller) of
                      None \<Rightarrow> (status_json 500 (JObj [(''error'', JStr ''Failed to login seller'')]), st)
                    | Some match \<Rightarrow>
                        if \<not> match
                        then (status_json 401 (JObj [(''error'', JStr ''Invalid credentials'')]), st)
                        else (case jwt_sign w
                                     [(''id'', seller_id seller), (''username'', username seller)]
                                     (JWT_SECRET w) ''1h'' of
                                Inl err \<Rightarrow>
                                  (status_json 500 (JObj [(''error'', JStr ''Failed to login seller'')]), st)
                              | Inr token \<Rightarrow> (res_json (JObj [(''token'', JStr token)]), st)))))"

definition get_products :: "world \<Rightarrow> store \<Rightarrow> request \<Rightarrow> response \<times> store" where
  "get_products w st req =
     (case Product_find w st of
        Inl err \<Rightarrow> (status_json 500 (JObj [(''error'', JStr ''Failed to fetch products'')]), st)
      | Inr ps \<Rightarrow> (res_json (JArr (map JProduct ps)), st))"

definition post_products :: "world \<Rightarrow> store \<Rightarrow> request \<Rightarrow> response \<times> store" where
  "post_products w st req =
     (let name' = body req ''name''; description' = body req ''description''
      in if falsy_field name' \<or> falsy_field description'
         then (status_json 400 (JObj [(''error'', JStr ''Product name and description are required'')]), st)
         else (case new_Product w (field_value name') (field_value description') of
                 Inl err \<Rightarrow>
                   (status_json 500 (JObj [(''error'', JStr ''Failed to insert product'')]), st)
               | Inr newProduct \<Rightarrow>
                   (case Product_save w st newProduct of
                      Inl err \<Rightarrow>
                        (status_json 500 (JObj [(''error'', JStr ''Failed to insert product'')]), st)
                    | Inr st' \<Rightarrow>
                        (status_json 201
                           (JObj [(''message'', JStr ''Product added successfully''),
                                  (''product'', JProduct newProduct)]),
                         st'))))"

definition put_products_id :: "world \<Rightarrow> store \<Rightarrow> request \<Rightarrow> response \<times> store" where
  "put_products_id w st req =
     (let id' = params_id req;
          name' = body req ''name''; description' = body req ''description''
      in if falsy_field name' \<or> falsy_field description'
         then (status_json 400 (JObj [(''error'', JStr ''Product name and description are required'')]), st)
         else (case Product_findByIdAndUpdate w st id' (field_value name') (field_value description') of
                 Inl err \<Rightarrow>
                   (status_json 500 (JObj [(''error'', JStr ''Failed to update product'')]), st)
               | Inr (None, st') \<Rightarrow>
                   (status_json 404 (JObj [(''error'', JStr ''Product not found'')]), st')
               | Inr (Some updatedProduct, st') \<Rightarrow>
                   (res_json (JObj [(''message'', JStr ''Product updated successfully''),
                                    (''product'', JProduct updatedProduct)]),
                    st')))"

definition delete_products_id :: "world \<Rightarrow> store \<Rightarrow> request \<Rightarrow> response \<times> store" where
  "delete_products_id w st req =
     (let id' = params_id req
      in case Product_findByIdAndDelete w st id' of
           Inl err \<Rightarrow>
             (status_json 500 (JObj [(''error'', JStr ''Failed to delete product'')]), st)
         | Inr (None, st') \<Rightarrow>
             (status_json 404 (JObj [(''error'', JStr ''Product not found'')]), st')
         | Inr (Some deletedProduct, st') \<Rightarrow>
             (res_json (JObj [(''message'', JStr ''Product deleted successfully'')]), st'))"

text \<open>
  A route registered with the middleware: the handler runs only if the middleware calls
  \<^verbatim>\<open>next()\<close>, on the request with \<^verbatim>\<open>req.user\<close> set.
\<close>

definition protected ::
  "(world \<Rightarrow> store \<Rightarrow> request \<Rightarrow> response \<times> store) \<Rightarrow> world \<Rightarrow> store \<Rightarrow> request \<Rightarrow> response \<times> store" where
  "protected handler w st req =
     (case authenticateToken w req of
        Inl res \<Rightarrow> (res, st)
      | Inr decoded \<Rightarrow> handler w st (req\<lparr>user := Some decoded\<rparr>))"

definition app :: "world \<Rightarrow> store \<Rightarrow> request \<Rightarrow> response \<times> store" where
  "app w st req =
     (case route req of
        POST_sellers_signup \<Rightarrow> post_sellers_signup w st req
      | POST_sellers_login \<Rightarrow> post_sellers_login w st req
      | GET_products \<Rightarrow> get_products w st req
      | POST_products \<Rightarrow> protected post_products w st req
      | PUT_products_id \<Rightarrow> protected put_products_id w st req
      | DELETE_products_id \<Rightarrow> protected delete_products_id w st req)"

section \<open>A concrete world\<close>

text \<open>
  Stand-ins for the collaborators, on which the handlers can be run: one token that
  verifies; a reversible "hash" that, like bcrypt, rejects data that is not a string;
  the casts of a number and a boolean to their text; the ObjectId cast that accepts the
  strings of 24 hexadecimal digits and reads them in lower case; a store with one
  seller and two products. The stand-ins cast no array and no object.
\<close>

definition fake_verify :: "string \<Rightarrow> string option \<Rightarrow> jwt option" where
  "fake_verify token secret =
     (if token = ''tok.alice'' \<and> secret = Some ''s3cret''
      then Some \<lparr>claims = [(''id'', ''65a000000000000000000001''), (''username'', ''alice'')],
                 iat = 1000, exp = Some 4600\<rparr>
      else None)"

definition fake_encode :: "string \<Rightarrow> jwt \<Rightarrow> string" where
  "fake_encode secret payload = concat (map snd (claims payload)) @ ''.'' @ secret"

definition fake_hash :: "jsval \<Rightarrow> nat \<Rightarrow> string option" where
  "fake_hash data rounds =
     (case data of
        VStr s \<Rightarrow> if rounds = 10 then Some (''$2b$10$'' @ rev s) else None
      | _ \<Rightarrow> None)"

definition fake_compare :: "jsval \<Rightarrow> string \<Rightarrow> bool option" where
  "fake_compare data hash =
     (case data of
        VStr s \<Rightarrow> Some (hash = ''$2b$10$'' @ rev s)
      | _ \<Rightarrow> None)"

definition decimal :: "int \<Rightarrow> string" where
  "decimal n =
     (if n < 0 then CHR ''-'' # digits (Suc (nat (- n))) (nat (- n))
      else digits (Suc (nat n)) (nat n))"

definition fake_cast_String :: "jsval \<Rightarrow> string option" where
  "fake_cast_String v =
     (case v of
        VStr s \<Rightarrow> Some s
      | VNum n \<Rightarrow> Some (decimal n)
      | VBool b \<Rightarrow> Some (if b then ''true'' else ''false'')
      | _ \<Rightarrow> None)"

definition equals :: "string \<Rightarrow> string \<Rightarrow> bool" where
  "equals u x = (x = u)"

definition fake_cast_filter :: "jsval \<Rightarrow> (string \<Rightarrow> bool) option" where
  "fake_cast_filter v = map_option equals (fake_cast_String v)"

definition hex_digit :: "char \<Rightarrow> bool" where
  "hex_digit c = (c \<in> set ''0123456789abcdefABCDEF'')"

definition lower_case :: "char \<Rightarrow> char" where
  "lower_case c = (case map_of (zip ''ABCDEF'' ''abcdef'') c of None \<Rightarrow> c | Some l \<Rightarrow> l)"

definition hex24 :: "string \<Rightarrow> ObjectId option" where
  "hex24 s =
     (if length s = 24 \<and> list_all hex_digit s then Some (map lower_case s) else None)"

definition world0 :: world where
  "world0 =
     \<lparr>JWT_SECRET = Some ''s3cret'', clock = 1000,
      jwt_verify = fake_verify, jwt_encode = fake_encode,
      bcrypt_hash = fake_hash, bcrypt_compare = fake_compare,
      cast_String = fake_cast_String, cast_filter = fake_cast_filter,
      new_ObjectId = ''65c0000000000000000000ff'', cast_ObjectId = hex24,
      store_throws = False\<rparr>"

definition alice :: seller where
  "alice = \<lparr>seller_id = ''65a000000000000000000001'', username = ''alice'',
            password = ''$2b$10$drowssap''\<rparr>"

definition pen :: product where
  "pen = \<lparr>product_id = ''65b000000000000000000001'', name = ''Pen'',
          description = ''Blue ink pen''\<rparr>"

definition cup :: product where
  "cup = \<lparr>product_id = ''65b000000000000000000002'', name = ''Cup'',
          description = ''Tin cup''\<rparr>"

definition store0 :: store where
  "store0 = \<lparr>sellers = [alice], products = [pen, cup]\<rparr>"

definition request :: "route \<Rightarrow> string option \<Rightarrow> string \<Rightarrow> (string \<times> jsval) list \<Rightarrow> request" where
  "request r authorization id' entries =
     \<lparr>route = r, headers_authorization = authorization, params_id = id',
      body = map_of entries, user = None\<rparr>"

section \<open>Notions the claims speak of\<close>

text \<open>A response with nothing in its body.\<close>

definition empty_body :: "response \<Rightarrow> bool" where
  "empty_body res = (sent res = Text [])"

text \<open>The body fields a handler tests before it does anything else.\<close>

definition required_fields :: "route \<Rightarrow> string list" where
  "required_fields r =
     (case r of
        POST_sellers_signup \<Rightarrow> [''username'', ''password'']
      | POST_sellers_login \<Rightarrow> [''username'', ''password'']
      | POST_products \<Rightarrow> [''name'', ''description'']
      | PUT_products_id \<Rightarrow> [''name'', ''description'']
      | GET_products \<Rightarrow> []
      | DELETE_products_id \<Rightarrow> [])"

section \<open>The middleware: which part of the header is the token\<close>

lemma split_not_Nil: "split sep s \<noteq> []"
  by (induction s) (auto split: list.splits)

lemma split_no_sep: "sep \<notin> set s \<Longrightarrow> split sep s = [s]"
  by (induction s) auto

lemma split_append: "sep \<notin> set a \<Longrightarrow> split sep (a @ sep # b) = a # split sep b"
  by (induction a) (auto split: list.splits)

lemma hd_split: "hd (split sep s) = takeWhile (\<lambda>c. c \<noteq> sep) s"
  by (induction s) (auto split: list.splits simp: split_not_Nil)

lemma index_1_split:
  "sep \<notin> set a \<Longrightarrow>
   index (split sep (a @ sep # b)) (Suc 0) = Some (takeWhile (\<lambda>c. c \<noteq> sep) b)"
  using hd_split [of sep b] split_not_Nil [of sep b]
  by (cases "split sep b") (simp_all add: split_append)

lemma header_token_second_part:
  "CHR '' '' \<notin> set scheme \<Longrightarrow>
   header_token (Some (scheme @ CHR '' '' # rest)) = Some (takeWhile (\<lambda>c. c \<noteq> CHR '' '') rest)"
  by (simp add: header_token_def falsy_def val_def index_1_split)

lemma header_token_no_space:
  "CHR '' '' \<notin> set h \<Longrightarrow> falsy (header_token (Some h))"
  by (simp add: header_token_def falsy_def val_def split_no_sep)

lemma header_token_absent: "header_token None = None"
  by (simp add: header_token_def falsy_def)

lemma authenticateToken_no_token:
  "falsy (header_token (headers_authorization req)) \<Longrightarrow>
   authenticateToken w req = Inl (sendStatus 401)"
  by (simp add: authenticateToken_def)

lemma authenticateToken_bad_token:
  "header_token (headers_authorization req) = Some t \<Longrightarrow> t \<noteq> [] \<Longrightarrow>
   jwt_verify w t (JWT_SECRET w) = None \<Longrightarrow>
   authenticateToken w req = Inl (sendStatus 403)"
  by (simp add: authenticateToken_def falsy_def val_def)

lemma authenticateToken_good_token:
  "header_token (headers_authorization req) = Some t \<Longrightarrow> t \<noteq> [] \<Longrightarrow>
   jwt_verify w t (JWT_SECRET w) = Some decoded \<Longrightarrow>
   authenticateToken w req = Inr decoded"
  by (simp add: authenticateToken_def falsy_def val_def)

lemma protected_rejects:
  "authenticateToken w req = Inl res \<Longrightarrow> protected handler w st req = (res, st)"
  by (simp add: protected_def)

lemma protected_passes:
  "authenticateToken w req = Inr decoded \<Longrightarrow>
   protected handler w st req = handler w st (req\<lparr>user := Some decoded\<rparr>)"
  by (simp add: protected_def)

lemma app_mutation:
  assumes "route req \<in> {POST_products, PUT_products_id, DELETE_products_id}"
  obtains handler where "app w st req = protected handler w st req"
  using assms by (auto simp: app_def)

lemmas world0_simps =
  world0_def fake_verify_def fake_encode_def fake_hash_def fake_compare_def hex24_def
  hex_digit_def lower_case_def store0_def alice_def pen_def cup_def request_def

lemmas mongoose_simps =
  field_value_def to_String_def username_filter_def new_Seller_def new_Product_def

lemmas express_simps = sendStatus_def status_json_def res_json_def status_message_def

section \<open>Claims about the authentication gate\<close>

text \<open>
  Claim C1. A request to one of the three product-mutating routes (POST
  /api/products, PUT and DELETE /api/products/:id) that carries no Authorization
  header, or a header in which the middleware finds no token, is answered with status
  401; one whose token fails verification is answered with status 403. In each case the
  store after the request is the store before it: the handler has not run.
\<close>

theorem mutation_without_valid_token_rejected:
  assumes "route req \<in> {POST_products, PUT_products_id, DELETE_products_id}"
  shows "(headers_authorization req = None \<longrightarrow>
            status (fst (app w st req)) = 401 \<and> snd (app w st req) = st)
       \<and> (falsy (header_token (headers_authorization req)) \<longrightarrow>
            status (fst (app w st req)) = 401 \<and> snd (app w st req) = st)
       \<and> (header_token (headers_authorization req) = Some t \<and> t \<noteq> []
            \<and> jwt_verify w t (JWT_SECRET w) = None \<longrightarrow>
            status (fst (app w st req)) = 403 \<and> snd (app w st req) = st)"
proof -
  obtain handler where h: "app w st req = protected handler w st req"
    using assms by (rule app_mutation)
  have absent: "headers_authorization req = None \<Longrightarrow>
      falsy (header_token (headers_authorization req))"
    by (simp add: header_token_absent falsy_def)
  have no_token: "falsy (header_token (headers_authorization req)) \<Longrightarrow>
      app w st req = (sendStatus 401, st)"
    by (simp add: h protected_rejects authenticateToken_no_token)
  have bad: "header_token (headers_authorization req) = Some t \<Longrightarrow> t \<noteq> [] \<Longrightarrow>
      jwt_verify w t (JWT_SECRET w) = None \<Longrightarrow> app w st req = (sendStatus 403, st)"
    by (simp add: h protected_rejects authenticateToken_bad_token)
  show ?thesis
    using absent no_token bad by (simp add: sendStatus_def)
qed

text \<open>
  The theorem at three requests on the concrete world: a DELETE with no header, a POST
  whose header is the single word \<^verbatim>\<open>Bearer\<close>, and a PUT with a token that does not
  verify.
\<close>

theorem mutation_without_valid_token_rejected_witness:
  "status (fst (app world0 store0
      (request DELETE_products_id None ''65b000000000000000000001'' []))) = 401
   \<and> snd (app world0 store0
      (request DELETE_products_id None ''65b000000000000000000001'' [])) = store0
   \<and> status (fst (app world0 store0
      (request POST_products (Some ''Bearer'') []
         [(''name'', VStr ''Ink''), (''description'', VStr ''Black ink'')]))) = 401
   \<and> snd (app world0 store0
      (request POST_products (Some ''Bearer'') []
         [(''name'', VStr ''Ink''), (''description'', VStr ''Black ink'')])) = store0
   \<and> status (fst (app world0 store0
      (request PUT_products_id (Some ''Bearer tok.mallory'') ''65b000000000000000000001''
         [(''name'', VStr ''Ink''), (''description'', VStr ''Black ink'')]))) = 403
   \<and> snd (app world0 store0
      (request PUT_products_id (Some ''Bearer tok.mallory'') ''65b000000000000000000001''
         [(''name'', VStr ''Ink''), (''description'', VStr ''Black ink'')])) = store0"
proof -
  let ?r1 = "request DELETE_products_id None ''65b000000000000000000001'' []"
  let ?r2 = "request POST_products (Some ''Bearer'') []
         [(''name'', VStr ''Ink''), (''description'', VStr ''Black ink'')]"
  let ?r3 = "request PUT_products_id (Some ''Bearer tok.mallory'') ''65b000000000000000000001''
         [(''name'', VStr ''Ink''), (''description'', VStr ''Black ink'')]"
  have t3: "header_token (headers_authorization ?r3) = Some ''tok.mallory''"
    by (simp add: request_def header_token_def falsy_def val_def)
  have v3: "jwt_verify world0 ''tok.mallory'' (JWT_SECRET world0) = None"
    by (simp add: world0_def fake_verify_def)
  have f2: "falsy (header_token (headers_authorization ?r2))"
    by (simp add: request_def header_token_def falsy_def val_def)
  show ?thesis
    using mutation_without_valid_token_rejected [of ?r1 world0 store0]
      mutation_without_valid_token_rejected [of ?r2 world0 store0]
      mutation_without_valid_token_rejected [of ?r3 world0 store0 "''tok.mallory''"]
      t3 v3 f2
    by (simp add: request_def)
qed

text \<open>
  Claim C4, as the specification states it: the middleware answers a request without a
  token with status 401 and an empty body. It does not: \<^verbatim>\<open>res.sendStatus(401)\<close>
  sends the status message. A POST /api/products without an Authorization header gets
  status 401 with the body \<^verbatim>\<open>Unauthorized\<close>.
\<close>

theorem middleware_body_counterexample:
  "status (fst (app world0 store0 (request POST_products None []
       [(''name'', VStr ''Ink''), (''description'', VStr ''Black ink'')]))) = 401
   \<and> sent (fst (app world0 store0 (request POST_products None []
       [(''name'', VStr ''Ink''), (''description'', VStr ''Black ink'')]))) = Text ''Unauthorized''
   \<and> \<not> empty_body (fst (app world0 store0 (request POST_products None []
       [(''name'', VStr ''Ink''), (''description'', VStr ''Black ink'')])))"
  by (simp add: app_def protected_def authenticateToken_def header_token_def falsy_def
      request_def empty_body_def express_simps)

text \<open>
  Claim C4, amended. On a protected route, when the middleware finds no token in the
  Authorization header it answers status 401 with the plain-text body
  \<^verbatim>\<open>Unauthorized\<close>; when the token fails verification it answers status 403 with
  the plain-text body \<^verbatim>\<open>Forbidden\<close>. In both cases the route handler does not run:
  whatever the handler is, the response is the middleware's and the store is unchanged.
\<close>

theorem middleware_rejects_with_status_text:
  "(falsy (header_token (headers_authorization req)) \<longrightarrow>
      authenticateToken w req = Inl \<lparr>status = 401, sent = Text ''Unauthorized''\<rparr>
      \<and> protected handler w st req = (\<lparr>status = 401, sent = Text ''Unauthorized''\<rparr>, st))
   \<and> (header_token (headers_authorization req) = Some t \<and> t \<noteq> []
        \<and> jwt_verify w t (JWT_SECRET w) = None \<longrightarrow>
      authenticateToken w req = Inl \<lparr>status = 403, sent = Text ''Forbidden''\<rparr>
      \<and> protected handler w st req = (\<lparr>status = 403, sent = Text ''Forbidden''\<rparr>, st))"
proof -
  have s401: "sendStatus 401 = \<lparr>status = 401, sent = Text ''Unauthorized''\<rparr>"
    by (simp add: express_simps)
  have s403: "sendStatus 403 = \<lparr>status = 403, sent = Text ''Forbidden''\<rparr>"
    by (simp add: express_simps)
  show ?thesis
    using authenticateToken_no_token [of req w] authenticateToken_bad_token [of req t w]
    by (auto simp: s401 s403 protected_rejects)
qed

text \<open>The theorem at a DELETE without a header and at one with a token that does not verify.\<close>

theorem middleware_rejects_with_status_text_witness:
  "authenticateToken world0 (request DELETE_products_id None ''65b000000000000000000001'' [])
     = Inl \<lparr>status = 401, sent = Text ''Unauthorized''\<rparr>
   \<and> protected delete_products_id world0 store0
        (request DELETE_products_id None ''65b000000000000000000001'' [])
     = (\<lparr>status = 401, sent = Text ''Unauthorized''\<rparr>, store0)
   \<and> authenticateToken world0
        (request DELETE_products_id (Some ''Bearer tok.mallory'') ''65b000000000000000000001'' [])
     = Inl \<lparr>status = 403, sent = Text ''Forbidden''\<rparr>
   \<and> protected delete_products_id world0 store0
        (request DELETE_products_id (Some ''Bearer tok.mallory'') ''65b000000000000000000001'' [])
     = (\<lparr>status = 403, sent = Text ''Forbidden''\<rparr>, store0)"
proof -
  let ?r1 = "request DELETE_products_id None ''65b000000000000000000001'' []"
  let ?r2 = "request DELETE_products_id (Some ''Bearer tok.mallory'') ''65b000000000000000000001'' []"
  have f1: "falsy (header_token (headers_authorization ?r1))"
    by (simp add: request_def header_token_def falsy_def)
  have t2: "header_token (headers_authorization ?r2) = Some ''tok.mallory''"
    by (simp add: request_def header_token_def falsy_def val_def)
  have v2: "jwt_verify world0 ''tok.mallory'' (JWT_SECRET world0) = None"
    by (simp add: world0_def fake_verify_def)
  show ?thesis
    using middleware_rejects_with_status_text
        [where req = ?r1 and w = world0 and handler = delete_products_id and st = store0]
      middleware_rejects_with_status_text
        [where req = ?r2 and t = "''tok.mallory''" and w = world0
           and handler = delete_products_id and st = store0]
      f1 t2 v2
    by simp
qed

text \<open>
  Claim C9. The middleware never looks at the scheme word. Whatever stands before the
  first space of the header, the token is the part between the first space and the
  next one (or the end): if that part is not empty and verifies, the request is
  accepted with the decoded payload; if it is empty, the middleware answers status 401
  (with the text \<^verbatim>\<open>Unauthorized\<close>). A header with no space at all has no second
  part, and the answer is the same 401.
\<close>

theorem scheme_word_not_checked:
  "(CHR '' '' \<notin> set scheme \<and> headers_authorization req = Some (scheme @ CHR '' '' # rest) \<longrightarrow>
      header_token (headers_authorization req) = Some (takeWhile (\<lambda>c. c \<noteq> CHR '' '') rest)
      \<and> (takeWhile (\<lambda>c. c \<noteq> CHR '' '') rest \<noteq> []
           \<and> jwt_verify w (takeWhile (\<lambda>c. c \<noteq> CHR '' '') rest) (JWT_SECRET w) = Some decoded \<longrightarrow>
          authenticateToken w req = Inr decoded)
      \<and> (takeWhile (\<lambda>c. c \<noteq> CHR '' '') rest = [] \<longrightarrow>
          authenticateToken w req = Inl \<lparr>status = 401, sent = Text ''Unauthorized''\<rparr>))
   \<and> (CHR '' '' \<notin> set h \<and> headers_authorization req = Some h \<longrightarrow>
      authenticateToken w req = Inl \<lparr>status = 401, sent = Text ''Unauthorized''\<rparr>)"
proof (intro conjI impI)
  assume a: "CHR '' '' \<notin> set scheme \<and> headers_authorization req = Some (scheme @ CHR '' '' # rest)"
  then show tok: "header_token (headers_authorization req) = Some (takeWhile (\<lambda>c. c \<noteq> CHR '' '') rest)"
    by (simp add: header_token_second_part)
  {
    assume "takeWhile (\<lambda>c. c \<noteq> CHR '' '') rest \<noteq> []
           \<and> jwt_verify w (takeWhile (\<lambda>c. c \<noteq> CHR '' '') rest) (JWT_SECRET w) = Some decoded"
    with tok show "authenticateToken w req = Inr decoded"
      by (simp add: authenticateToken_good_token)
  }
  {
    assume "takeWhile (\<lambda>c. c \<noteq> CHR '' '') rest = []"
    with tok show "authenticateToken w req = Inl \<lparr>status = 401, sent = Text ''Unauthorized''\<rparr>"
      using authenticateToken_no_token [of req w] by (simp add: falsy_def express_simps)
  }
next
  assume "CHR '' '' \<notin> set h \<and> headers_authorization req = Some h"
  then show "authenticateToken w req = Inl \<lparr>status = 401, sent = Text ''Unauthorized''\<rparr>"
    using authenticateToken_no_token [of req w] by (simp add: header_token_no_space express_simps)
qed

text \<open>
  The theorem at the headers \<^verbatim>\<open>Basic tok.alice extra\<close> (accepted),
  \<^verbatim>\<open>Bearer  tok.alice\<close> with two spaces (the second part is empty) and
  \<^verbatim>\<open>tok.alice\<close> (no space).
\<close>

theorem scheme_word_not_checked_witness:
  "authenticateToken world0 (request POST_products (Some ''Basic tok.alice extra'') [] [])
     = Inr \<lparr>claims = [(''id'', ''65a000000000000000000001''), (''username'', ''alice'')],
            iat = 1000, exp = Some 4600\<rparr>
   \<and> header_token (Some ''Basic tok.alice extra'') = Some ''tok.alice''
   \<and> authenticateToken world0 (request POST_products (Some ''Bearer  tok.alice'') [] [])
     = Inl \<lparr>status = 401, sent = Text ''Unauthorized''\<rparr>
   \<and> authenticateToken world0 (request POST_products (Some ''tok.alice'') [] [])
     = Inl \<lparr>status = 401, sent = Text ''Unauthorized''\<rparr>"
proof -
  let ?r1 = "request POST_products (Some ''Basic tok.alice extra'') [] []"
  let ?r2 = "request POST_products (Some ''Bearer  tok.alice'') [] []"
  let ?r3 = "request POST_products (Some ''tok.alice'') [] []"
  have v: "jwt_verify world0 ''tok.alice'' (JWT_SECRET world0)
      = Some \<lparr>claims = [(''id'', ''65a000000000000000000001''), (''username'', ''alice'')],
            iat = 1000, exp = Some 4600\<rparr>"
    by (simp add: world0_def fake_verify_def)
  show ?thesis
    using scheme_word_not_checked
        [where scheme = "''Basic''" and req = ?r1 and rest = "''tok.alice extra''" and w = world0
           and decoded = "\<lparr>claims = [(''id'', ''65a000000000000000000001''),
                  (''username'', ''alice'')], iat = 1000, exp = Some 4600\<rparr>"]
      scheme_word_not_checked
        [where scheme = "''Bearer''" and req = ?r2 and rest = "'' tok.alice''" and w = world0]
      scheme_word_not_checked [where h = "''tok.alice''" and req = ?r3 and w = world0]
      v
    by (simp add: request_def)
qed

section \<open>Claims about login\<close>

lemma falsy_field_VStr: "falsy_field (Some (VStr s)) = (s = [])"
  by simp

lemma falsy_field_None: "falsy_field None"
  by simp

lemma field_value_Some: "field_value (Some v) = v"
  by (simp add: field_value_def)

lemma to_String_VStr: "to_String w (VStr s) = Some s"
  by (simp add: to_String_def)

lemma Seller_findOne_string:
  "Seller_findOne w st (VStr u) =
     (if store_throws w then Inl StoreUnavailable
      else Inr (find (\<lambda>s. username s = u) (sellers st)))"
  by (simp add: Seller_findOne_def username_filter_def)






text \<open>
  Claim C3. A login request whose (non-empty) username is a seller's and whose
  (non-empty) password bcrypt matches against the stored hash is answered, provided
  the database answers and the server has a secret, with status 200 and a token: the
  serialisation, signed with the server's secret, of a payload holding exactly the
  seller's id and username, issued at the current time and expiring 3600 seconds later.
  The store is unchanged.
\<close>

theorem login_success_token:
  assumes "route req = POST_sellers_login"
    and "body req ''username'' = Some (VStr u)" and "u \<noteq> []"
    and "body req ''password'' = Some (VStr p)" and "p \<noteq> []"
    and "\<not> store_throws w"
    and "find (\<lambda>s. username s = u) (sellers st) = Some s"
    and "bcrypt_compare w (VStr p) (password s) = Some True"
    and "JWT_SECRET w = Some secret" and "secret \<noteq> []"
  shows "app w st req =
           (\<lparr>status = 200,
             sent = Json (JObj [(''token'',
               JStr (jwt_encode w secret
                 \<lparr>claims = [(''id'', seller_id s), (''username'', username s)],
                  iat = clock w, exp = Some (clock w + 3600)\<rparr>))])\<rparr>,
            st)"
proof -
  have span: "timespan ''1h'' = Some 3600"
    by (simp add: timespan_def digit_def unit_seconds_def)
  have sign: "jwt_sign w [(''id'', seller_id s), (''username'', username s)] (JWT_SECRET w) ''1h''
      = Inr (jwt_encode w secret
                 \<lparr>claims = [(''id'', seller_id s), (''username'', username s)],
                  iat = clock w, exp = Some (clock w + 3600)\<rparr>)"
    using assms(9,10) by (simp add: jwt_sign_def span)
  show ?thesis
    using assms(1-8)
    by (simp add: app_def post_sellers_login_def Seller_findOne_string field_value_Some sign
        status_json_def res_json_def)
qed

text \<open>The theorem at a login as \<^verbatim>\<open>alice\<close> with her password, at time 1000.\<close>

theorem login_success_token_witness:
  "app world0 store0 (request POST_sellers_login None []
          [(''username'', VStr ''alice''), (''password'', VStr ''password'')])
   = (\<lparr>status = 200,
       sent = Json (JObj [(''token'',
               JStr (fake_encode ''s3cret''
                 \<lparr>claims = [(''id'', ''65a000000000000000000001''), (''username'', ''alice'')],
                  iat = 1000, exp = Some 4600\<rparr>))])\<rparr>,
      store0)"
proof -
  let ?r = "request POST_sellers_login None []
          [(''username'', VStr ''alice''), (''password'', VStr ''password'')]"
  have "app world0 store0 ?r =
           (\<lparr>status = 200,
             sent = Json (JObj [(''token'',
               JStr (jwt_encode world0 ''s3cret''
                 \<lparr>claims = [(''id'', seller_id alice), (''username'', username alice)],
                  iat = clock world0, exp = Some (clock world0 + 3600)\<rparr>))])\<rparr>,
            store0)"
    by (rule login_success_token [where u = "''alice''" and p = "''password''"])
       (simp_all add: world0_simps mongoose_simps)
  then show ?thesis by (simp add: world0_def alice_def)
qed

section \<open>Claims about signup\<close>

lemma signup_missing:
  "falsy_field (body req ''username'') \<or> falsy_field (body req ''password'') \<Longrightarrow>
   post_sellers_signup w st req =
     (\<lparr>status = 400, sent = Json (JObj [(''error'', JStr ''Username and password are required'')])\<rparr>,
      st)"
  by (auto simp: post_sellers_signup_def status_json_def)

lemma falsy_field_not_None: "\<not> falsy_field x \<Longrightarrow> \<exists>v. x = Some v"
  by (cases x) simp_all

lemma Seller_save_Inr:
  "Seller_save w st doc = Inr st' \<Longrightarrow> st' = st\<lparr>sellers := sellers st @ [doc]\<rparr>"
  by (simp add: Seller_save_def split: if_splits)

lemma signup_cases:
  "post_sellers_signup w st req =
     (\<lparr>status = 400, sent = Json (JObj [(''error'', JStr ''Username and password are required'')])\<rparr>, st)
   \<or> post_sellers_signup w st req =
     (\<lparr>status = 500, sent = Json (JObj [(''error'', JStr ''Failed to register seller'')])\<rparr>, st)
   \<or> (\<exists>uv u v h. body req ''username'' = Some uv \<and> to_String w uv = Some u
        \<and> body req ''password'' = Some v \<and> bcrypt_hash w v 10 = Some h
        \<and> post_sellers_signup w st req =
           (\<lparr>status = 201, sent = Json (JObj [(''message'', JStr ''Seller registered successfully'')])\<rparr>,
            st\<lparr>sellers := sellers st @ [\<lparr>seller_id = new_ObjectId w, username = u, password = h\<rparr>]\<rparr>))"
proof (cases "falsy_field (body req ''username'') \<or> falsy_field (body req ''password'')")
  case True
  then show ?thesis by (simp add: signup_missing)
next
  case False
  then obtain uv v where
    up: "body req ''username'' = Some uv" "body req ''password'' = Some v"
    using falsy_field_not_None [of "body req ''username''"]
      falsy_field_not_None [of "body req ''password''"] by blast
  from False up have truthy: "\<not> falsy_field (Some uv)" "\<not> falsy_field (Some v)"
    by simp_all
  show ?thesis
  proof (cases "bcrypt_hash w v 10")
    case None
    with up truthy show ?thesis
      by (simp add: post_sellers_signup_def field_value_Some status_json_def)
  next
    case (Some h)
    show ?thesis
    proof (cases "to_String w uv")
      case None
      with up truthy Some show ?thesis
        by (simp add: post_sellers_signup_def field_value_Some status_json_def new_Seller_def)
    next
      case u: (Some u)
      show ?thesis
      proof (cases "Seller_save w st \<lparr>seller_id = new_ObjectId w, username = u, password = h\<rparr>")
        case (Inl e)
        with up truthy Some u show ?thesis
          by (simp add: post_sellers_signup_def field_value_Some status_json_def new_Seller_def)
      next
        case (Inr st')
        then have st': "st' = st\<lparr>sellers := sellers st @
            [\<lparr>seller_id = new_ObjectId w, username = u, password = h\<rparr>]\<rparr>"
          by (rule Seller_save_Inr)
        have "post_sellers_signup w st req =
           (\<lparr>status = 201, sent = Json (JObj [(''message'', JStr ''Seller registered successfully'')])\<rparr>,
            st\<lparr>sellers := sellers st @ [\<lparr>seller_id = new_ObjectId w, username = u, password = h\<rparr>]\<rparr>)"
          using up truthy Some u Inr
          by (simp add: post_sellers_signup_def field_value_Some status_json_def new_Seller_def st')
        with up Some u show ?thesis by blast
      qed
    qed
  qed
qed

lemma signup_status_201:
  assumes "status (fst (post_sellers_signup w st req)) = 201"
  shows "\<exists>uv u v h. body req ''username'' = Some uv \<and> to_String w uv = Some u
         \<and> body req ''password'' = Some v \<and> bcrypt_hash w v 10 = Some h
         \<and> post_sellers_signup w st req =
           (\<lparr>status = 201, sent = Json (JObj [(''message'', JStr ''Seller registered successfully'')])\<rparr>,
            st\<lparr>sellers := sellers st @ [\<lparr>seller_id = new_ObjectId w, username = u, password = h\<rparr>]\<rparr>)"
proof -
  consider
    (bad) "post_sellers_signup w st req =
     (\<lparr>status = 400, sent = Json (JObj [(''error'', JStr ''Username and password are required'')])\<rparr>, st)"
  | (err) "post_sellers_signup w st req =
     (\<lparr>status = 500, sent = Json (JObj [(''error'', JStr ''Failed to register seller'')])\<rparr>, st)"
  | (ok) "\<exists>uv u v h. body req ''username'' = Some uv \<and> to_String w uv = Some u
         \<and> body req ''password'' = Some v \<and> bcrypt_hash w v 10 = Some h
         \<and> post_sellers_signup w st req =
           (\<lparr>status = 201, sent = Json (JObj [(''message'', JStr ''Seller registered successfully'')])\<rparr>,
            st\<lparr>sellers := sellers st @ [\<lparr>seller_id = new_ObjectId w, username = u, password = h\<rparr>]\<rparr>)"
    using signup_cases [of w st req] by blast
  then show ?thesis
  proof cases
    case bad
    with assms show ?thesis by simp
  next
    case err
    with assms show ?thesis by simp
  next
    case ok
    then show ?thesis .
  qed
qed

lemma signup_success:
  assumes "body req ''username'' = Some (VStr u)" "u \<noteq> []" "body req ''password'' = Some (VStr p)" "p \<noteq> []"
    and "bcrypt_hash w (VStr p) 10 = Some h" "h \<noteq> []" "\<not> store_throws w"
    and "u \<notin> username ` set (sellers st)" "new_ObjectId w \<notin> seller_id ` set (sellers st)"
  shows "post_sellers_signup w st req =
           (\<lparr>status = 201, sent = Json (JObj [(''message'', JStr ''Seller registered successfully'')])\<rparr>,
            st\<lparr>sellers := sellers st @ [\<lparr>seller_id = new_ObjectId w, username = u, password = h\<rparr>]\<rparr>)"
proof -
  have "Seller_save w st \<lparr>seller_id = new_ObjectId w, username = u, password = h\<rparr>
      = Inr (st\<lparr>sellers := sellers st @ [\<lparr>seller_id = new_ObjectId w, username = u, password = h\<rparr>]\<rparr>)"
    using assms(2,6-9) by (auto simp: Seller_save_def image_iff)
  then show ?thesis
    using assms(1-5)
    by (simp add: post_sellers_signup_def field_value_Some status_json_def new_Seller_def
        to_String_def)
qed

text \<open>
  Claim C8. A signup request in which the username or the password is missing is
  answered with status 400, and the store is unchanged: no seller is created. A signup
  answered with status 201 carries the confirmation message and nothing else, neither
  the new seller's id nor a token; and a signup does succeed, adding one seller, when
  both fields are non-empty strings, bcrypt yields a hash, the database answers and
  neither the username nor the fresh id is taken.
\<close>

theorem signup_missing_field_and_success:
  assumes "route req = POST_sellers_signup"
  shows "(body req ''username'' = None \<or> body req ''password'' = None \<longrightarrow>
            app w st req =
              (\<lparr>status = 400,
                sent = Json (JObj [(''error'', JStr ''Username and password are required'')])\<rparr>, st))
       \<and> (status (fst (app w st req)) = 201 \<longrightarrow>
            sent (fst (app w st req)) = Json (JObj [(''message'', JStr ''Seller registered successfully'')]))
       \<and> (body req ''username'' = Some (VStr u) \<and> u \<noteq> [] \<and> body req ''password'' = Some (VStr p) \<and> p \<noteq> []
            \<and> bcrypt_hash w (VStr p) 10 = Some h \<and> h \<noteq> [] \<and> \<not> store_throws w
            \<and> u \<notin> username ` set (sellers st) \<and> new_ObjectId w \<notin> seller_id ` set (sellers st) \<longrightarrow>
            app w st req =
              (\<lparr>status = 201,
                sent = Json (JObj [(''message'', JStr ''Seller registered successfully'')])\<rparr>,
               st\<lparr>sellers := sellers st @
                     [\<lparr>seller_id = new_ObjectId w, username = u, password = h\<rparr>]\<rparr>))"
proof -
  have run: "app w st req = post_sellers_signup w st req"
    using assms by (simp add: app_def)
  have c1: "body req ''username'' = None \<or> body req ''password'' = None \<Longrightarrow>
      app w st req =
        (\<lparr>status = 400,
          sent = Json (JObj [(''error'', JStr ''Username and password are required'')])\<rparr>, st)"
    using signup_missing [of req w st] by (auto simp: run)
  have c2: "sent (fst (app w st req)) = Json (JObj [(''message'', JStr ''Seller registered successfully'')])"
    if "status (fst (app w st req)) = 201"
  proof -
    from that have "status (fst (post_sellers_signup w st req)) = 201"
      by (simp add: run)
    then obtain st' where "post_sellers_signup w st req =
           (\<lparr>status = 201, sent = Json (JObj [(''message'', JStr ''Seller registered successfully'')])\<rparr>,
            st')"
      using signup_status_201 [of w st req] by blast
    then show ?thesis by (simp add: run)
  qed
  have c3: "body req ''username'' = Some (VStr u) \<Longrightarrow> u \<noteq> [] \<Longrightarrow> body req ''password'' = Some (VStr p) \<Longrightarrow> p \<noteq> []
      \<Longrightarrow> bcrypt_hash w (VStr p) 10 = Some h \<Longrightarrow> h \<noteq> [] \<Longrightarrow> \<not> store_throws w
      \<Longrightarrow> u \<notin> username ` set (sellers st) \<Longrightarrow> new_ObjectId w \<notin> seller_id ` set (sellers st)
      \<Longrightarrow> app w st req =
              (\<lparr>status = 201,
                sent = Json (JObj [(''message'', JStr ''Seller registered successfully'')])\<rparr>,
               st\<lparr>sellers := sellers st @
                     [\<lparr>seller_id = new_ObjectId w, username = u, password = h\<rparr>]\<rparr>)"
    by (simp add: run signup_success)
  show ?thesis
    using c1 c2 c3 by blast
qed

text \<open>
  The theorem at a signup without a password, one without a username, and the signup of
  \<^verbatim>\<open>bob\<close>.
\<close>

theorem signup_missing_field_and_success_witness:
  "app world0 store0 (request POST_sellers_signup None [] [(''username'', VStr ''bob'')])
     = (\<lparr>status = 400,
         sent = Json (JObj [(''error'', JStr ''Username and password are required'')])\<rparr>, store0)
   \<and> app world0 store0 (request POST_sellers_signup None [] [(''password'', VStr ''hunter2'')])
     = (\<lparr>status = 400,
         sent = Json (JObj [(''error'', JStr ''Username and password are required'')])\<rparr>, store0)
   \<and> app world0 store0
        (request POST_sellers_signup None [] [(''username'', VStr ''bob''), (''password'', VStr ''hunter2'')])
     = (\<lparr>status = 201,
         sent = Json (JObj [(''message'', JStr ''Seller registered successfully'')])\<rparr>,
        \<lparr>sellers = [alice, \<lparr>seller_id = ''65c0000000000000000000ff'', username = ''bob'',
                              password = ''$2b$10$2retnuh''\<rparr>],
         products = [pen, cup]\<rparr>)
   \<and> status (fst (app world0 store0
        (request POST_sellers_signup None [] [(''username'', VStr ''bob''), (''password'', VStr ''hunter2'')])))
     = 201
   \<and> sent (fst (app world0 store0
        (request POST_sellers_signup None [] [(''username'', VStr ''bob''), (''password'', VStr ''hunter2'')])))
     = Json (JObj [(''message'', JStr ''Seller registered successfully'')])"
proof -
  let ?r1 = "request POST_sellers_signup None [] [(''username'', VStr ''bob'')]"
  let ?r2 = "request POST_sellers_signup None [] [(''password'', VStr ''hunter2'')]"
  let ?r3 = "request POST_sellers_signup None [] [(''username'', VStr ''bob''), (''password'', VStr ''hunter2'')]"
  have h: "bcrypt_hash world0 (VStr ''hunter2'') 10 = Some ''$2b$10$2retnuh''"
    by (simp add: world0_def fake_hash_def)
  have a: "app world0 store0 ?r1
     = (\<lparr>status = 400,
         sent = Json (JObj [(''error'', JStr ''Username and password are required'')])\<rparr>, store0)"
    using signup_missing_field_and_success [where req = ?r1 and w = world0 and st = store0]
    by (simp add: request_def)
  have b: "app world0 store0 ?r2
     = (\<lparr>status = 400,
         sent = Json (JObj [(''error'', JStr ''Username and password are required'')])\<rparr>, store0)"
    using signup_missing_field_and_success [where req = ?r2 and w = world0 and st = store0]
    by (simp add: request_def)
  have c: "app world0 store0 ?r3
     = (\<lparr>status = 201,
         sent = Json (JObj [(''message'', JStr ''Seller registered successfully'')])\<rparr>,
        \<lparr>sellers = [alice, \<lparr>seller_id = ''65c0000000000000000000ff'', username = ''bob'',
                              password = ''$2b$10$2retnuh''\<rparr>],
         products = [pen, cup]\<rparr>)"
    using signup_missing_field_and_success [where req = ?r3 and w = world0 and st = store0
        and u = "''bob''" and p = "''hunter2''" and h = "''$2b$10$2retnuh''"] h
    by (simp add: request_def store0_def alice_def world0_def)
  have d: "status (fst (app world0 store0 ?r3)) = 201"
    by (simp add: c)
  have e: "sent (fst (app world0 store0 ?r3))
     = Json (JObj [(''message'', JStr ''Seller registered successfully'')])"
    using signup_missing_field_and_success [where req = ?r3 and w = world0 and st = store0] d
    by (simp add: request_def)
  from a b c d e show ?thesis by simp
qed

lemma find_in_set: "find P xs = Some x \<Longrightarrow> x \<in> set xs"
  by (induction xs) (auto split: if_splits)

lemma Seller_save_cases:
  "Seller_save w st doc =
     (if username doc = [] \<or> password doc = [] \<or> store_throws w
         \<or> (\<exists>s \<in> set (sellers st). username s = username doc \<or> seller_id s = seller_id doc)
      then Inl (if username doc = [] \<or> password doc = [] then ValidationError
                else if store_throws w then StoreUnavailable else DuplicateKey)
      else Inr (st\<lparr>sellers := sellers st @ [doc]\<rparr>))"
  by (simp add: Seller_save_def)

lemma signup_response_cases:
  "fst (post_sellers_signup w st req) =
     (if falsy_field (body req ''username'') \<or> falsy_field (body req ''password'')
      then \<lparr>status = 400, sent = Json (JObj [(''error'', JStr ''Username and password are required'')])\<rparr>
      else if bcrypt_hash w (field_value (body req ''password'')) 10 = None
             \<or> bcrypt_hash w (field_value (body req ''password'')) 10 = Some []
             \<or> to_String w (field_value (body req ''username'')) = None
             \<or> to_String w (field_value (body req ''username'')) = Some []
             \<or> store_throws w
             \<or> (\<exists>s \<in> set (sellers st).
                    Some (username s) = to_String w (field_value (body req ''username''))
                    \<or> seller_id s = new_ObjectId w)
      then \<lparr>status = 500, sent = Json (JObj [(''error'', JStr ''Failed to register seller'')])\<rparr>
      else \<lparr>status = 201, sent = Json (JObj [(''message'', JStr ''Seller registered successfully'')])\<rparr>)"
proof (cases "falsy_field (body req ''username'') \<or> falsy_field (body req ''password'')")
  case True
  then show ?thesis by (simp add: signup_missing)
next
  case False
  show ?thesis
  proof (cases "bcrypt_hash w (field_value (body req ''password'')) 10")
    case None
    with False show ?thesis
      by (simp add: post_sellers_signup_def status_json_def)
  next
    case h: (Some h)
    show ?thesis
    proof (cases "to_String w (field_value (body req ''username''))")
      case None
      with False h show ?thesis
        by (simp add: post_sellers_signup_def status_json_def new_Seller_def)
    next
      case (Some u)
      with False h show ?thesis
        by (auto simp: post_sellers_signup_def status_json_def new_Seller_def Seller_save_cases)
    qed
  qed
qed

lemma signup_password_only_through_bcrypt:
  assumes "falsy_field (Some v1) \<longleftrightarrow> falsy_field (Some v2)"
    and "bcrypt_hash w v1 10 = None \<longleftrightarrow> bcrypt_hash w v2 10 = None"
    and "bcrypt_hash w v1 10 = Some [] \<longleftrightarrow> bcrypt_hash w v2 10 = Some []"
  shows "fst (post_sellers_signup w st (req\<lparr>body := (body req)(''password'' \<mapsto> v1)\<rparr>))
       = fst (post_sellers_signup w st (req\<lparr>body := (body req)(''password'' \<mapsto> v2)\<rparr>))"
  unfolding signup_response_cases using assms by (simp add: field_value_Some)

lemma login_password_only_through_bcrypt:
  assumes "falsy_field (Some v1) \<longleftrightarrow> falsy_field (Some v2)"
    and "\<forall>s \<in> set (sellers st). bcrypt_compare w v1 (password s) = bcrypt_compare w v2 (password s)"
  shows "fst (post_sellers_login w st (req\<lparr>body := (body req)(''password'' \<mapsto> v1)\<rparr>))
       = fst (post_sellers_login w st (req\<lparr>body := (body req)(''password'' \<mapsto> v2)\<rparr>))"
proof (cases "Seller_findOne w st (field_value (body req ''username''))")
  case (Inl e)
  with assms(1) show ?thesis
    by (simp add: post_sellers_login_def Let_def field_value_Some)
next
  case (Inr found)
  show ?thesis
  proof (cases found)
    case None
    with Inr assms(1) show ?thesis
      by (simp add: post_sellers_login_def Let_def field_value_Some)
  next
    case (Some s)
    with Inr have "s \<in> set (sellers st)"
      by (auto simp: Seller_findOne_def split: option.splits if_splits dest: find_in_set)
    with assms(2) have "bcrypt_compare w v1 (password s) = bcrypt_compare w v2 (password s)"
      by blast
    with Inr Some assms(1) show ?thesis
      by (simp add: post_sellers_login_def Let_def field_value_Some)
  qed
qed

lemma authenticateToken_ignores_body:
  "authenticateToken w (req\<lparr>body := b\<rparr>) = authenticateToken w req"
  by (simp add: authenticateToken_def)

lemma other_handlers_ignore_password:
  "get_products w st (req\<lparr>body := (body req)(''password'' \<mapsto> v)\<rparr>) = get_products w st req"
  "post_products w st (req\<lparr>body := (body req)(''password'' \<mapsto> v), user := x\<rparr>)
     = post_products w st (req\<lparr>user := x\<rparr>)"
  "put_products_id w st (req\<lparr>body := (body req)(''password'' \<mapsto> v), user := x\<rparr>)
     = put_products_id w st (req\<lparr>user := x\<rparr>)"
  "delete_products_id w st (req\<lparr>body := (body req)(''password'' \<mapsto> v), user := x\<rparr>)
     = delete_products_id w st (req\<lparr>user := x\<rparr>)"
  by (simp_all add: get_products_def post_products_def put_products_id_def delete_products_id_def)

lemma protected_ignores_password:
  assumes "\<And>x. handler w st (req\<lparr>body := (body req)(''password'' \<mapsto> v), user := x\<rparr>)
     = handler w st (req\<lparr>user := x\<rparr>)"
  shows "protected handler w st (req\<lparr>body := (body req)(''password'' \<mapsto> v)\<rparr>)
     = protected handler w st req"
  using assms by (simp add: protected_def authenticateToken_ignores_body split: sum.splits)

lemma product_routes_ignore_password:
  assumes "route req \<noteq> POST_sellers_signup" and "route req \<noteq> POST_sellers_login"
  shows "app w st (req\<lparr>body := (body req)(''password'' \<mapsto> v)\<rparr>) = app w st req"
proof (cases "route req")
  case GET_products
  then show ?thesis
    by (simp add: app_def other_handlers_ignore_password)
next
  case POST_products
  then show ?thesis
    by (simp add: app_def protected_ignores_password other_handlers_ignore_password)
next
  case PUT_products_id
  then show ?thesis
    by (simp add: app_def protected_ignores_password other_handlers_ignore_password)
next
  case DELETE_products_id
  then show ?thesis
    by (simp add: app_def protected_ignores_password other_handlers_ignore_password)
qed (use assms in simp_all)

lemma response_password_only_through_bcrypt:
  assumes "falsy_field (Some v1) \<longleftrightarrow> falsy_field (Some v2)"
    and "bcrypt_hash w v1 10 = None \<longleftrightarrow> bcrypt_hash w v2 10 = None"
    and "bcrypt_hash w v1 10 = Some [] \<longleftrightarrow> bcrypt_hash w v2 10 = Some []"
    and "\<forall>s \<in> set (sellers st). bcrypt_compare w v1 (password s) = bcrypt_compare w v2 (password s)"
  shows "fst (app w st (req\<lparr>body := (body req)(''password'' \<mapsto> v1)\<rparr>))
       = fst (app w st (req\<lparr>body := (body req)(''password'' \<mapsto> v2)\<rparr>))"
proof (cases "route req = POST_sellers_signup \<or> route req = POST_sellers_login")
  case True
  then show ?thesis
  proof
    assume "route req = POST_sellers_signup"
    then show ?thesis
      using signup_password_only_through_bcrypt [OF assms(1-3)] by (simp add: app_def)
  next
    assume "route req = POST_sellers_login"
    then show ?thesis
      using login_password_only_through_bcrypt [OF assms(1,4)] by (simp add: app_def)
  qed
next
  case False
  then show ?thesis
    by (simp add: product_routes_ignore_password)
qed

lemma sellers_protected:
  assumes "\<And>r. sellers (snd (handler w st r)) = sellers st"
  shows "sellers (snd (protected handler w st req)) = sellers st"
  using assms by (simp add: protected_def split: sum.splits)

lemma login_store: "snd (post_sellers_login w st req) = st"
  by (simp add: post_sellers_login_def Let_def split: sum.splits option.splits)

lemma sellers_after_get: "sellers (snd (get_products w st req)) = sellers st"
  by (simp add: get_products_def split: sum.splits)

lemma Product_save_sellers: "Product_save w st doc = Inr st' \<Longrightarrow> sellers st' = sellers st"
  by (auto simp: Product_save_def split: if_splits)

lemma sellers_after_post: "sellers (snd (post_products w st req)) = sellers st"
  by (auto simp: post_products_def Let_def split: sum.splits dest: Product_save_sellers)

lemma Product_findByIdAndUpdate_sellers:
  "Product_findByIdAndUpdate w st i n d = Inr (found, st') \<Longrightarrow> sellers st' = sellers st"
  by (auto simp: Product_findByIdAndUpdate_def split: option.splits if_splits)

lemma sellers_after_put: "sellers (snd (put_products_id w st req)) = sellers st"
  by (auto simp: put_products_id_def Let_def split: sum.splits option.splits prod.splits
      dest: Product_findByIdAndUpdate_sellers)

lemma sellers_after_delete: "sellers (snd (delete_products_id w st req)) = sellers st"
  by (auto simp: delete_products_id_def Let_def Product_findByIdAndDelete_def
      split: sum.splits option.splits if_splits prod.splits)

lemma signup_store:
  "snd (post_sellers_signup w st req) = st
   \<or> (\<exists>uv u v h. body req ''username'' = Some uv \<and> to_String w uv = Some u
         \<and> body req ''password'' = Some v \<and> bcrypt_hash w v 10 = Some h
         \<and> snd (post_sellers_signup w st req)
             = st\<lparr>sellers := sellers st @
                   [\<lparr>seller_id = new_ObjectId w, username = u, password = h\<rparr>]\<rparr>)"
proof -
  consider
    (bad) "post_sellers_signup w st req =
     (\<lparr>status = 400, sent = Json (JObj [(''error'', JStr ''Username and password are required'')])\<rparr>, st)"
  | (err) "post_sellers_signup w st req =
     (\<lparr>status = 500, sent = Json (JObj [(''error'', JStr ''Failed to register seller'')])\<rparr>, st)"
  | (ok) uv u v h where "body req ''username'' = Some uv" "to_String w uv = Some u"
        "body req ''password'' = Some v" "bcrypt_hash w v 10 = Some h"
        "post_sellers_signup w st req =
           (\<lparr>status = 201, sent = Json (JObj [(''message'', JStr ''Seller registered successfully'')])\<rparr>,
            st\<lparr>sellers := sellers st @ [\<lparr>seller_id = new_ObjectId w, username = u, password = h\<rparr>]\<rparr>)"
    using signup_cases [of w st req] by blast
  then show ?thesis
  proof cases
    case bad
    then show ?thesis by simp
  next
    case err
    then show ?thesis by simp
  next
    case ok
    then have "body req ''username'' = Some uv \<and> to_String w uv = Some u
         \<and> body req ''password'' = Some v \<and> bcrypt_hash w v 10 = Some h
         \<and> snd (post_sellers_signup w st req)
             = st\<lparr>sellers := sellers st @
                   [\<lparr>seller_id = new_ObjectId w, username = u, password = h\<rparr>]\<rparr>"
      by simp
    then show ?thesis by blast
  qed
qed

lemma signup_products: "products (snd (post_sellers_signup w st req)) = products st"
  using signup_store [of w st req] by auto

lemma sellers_after_request:
  "sellers (snd (app w st req)) = sellers st
   \<or> (\<exists>uv u v h. route req = POST_sellers_signup
         \<and> body req ''username'' = Some uv \<and> to_String w uv = Some u
         \<and> body req ''password'' = Some v \<and> bcrypt_hash w v 10 = Some h
         \<and> sellers (snd (app w st req))
             = sellers st @ [\<lparr>seller_id = new_ObjectId w, username = u, password = h\<rparr>])"
proof (cases "route req")
  case POST_sellers_signup
  then have run: "app w st req = post_sellers_signup w st req"
    by (simp add: app_def)
  from signup_store [of w st req] show ?thesis
  proof
    assume "snd (post_sellers_signup w st req) = st"
    then show ?thesis by (simp add: run)
  next
    assume "\<exists>uv u v h. body req ''username'' = Some uv \<and> to_String w uv = Some u
         \<and> body req ''password'' = Some v \<and> bcrypt_hash w v 10 = Some h
         \<and> snd (post_sellers_signup w st req)
             = st\<lparr>sellers := sellers st @
                   [\<lparr>seller_id = new_ObjectId w, username = u, password = h\<rparr>]\<rparr>"
    then obtain uv u v h where
      "body req ''username'' = Some uv" "to_String w uv = Some u"
      "body req ''password'' = Some v" "bcrypt_hash w v 10 = Some h"
      "snd (post_sellers_signup w st req)
             = st\<lparr>sellers := sellers st @
                   [\<lparr>seller_id = new_ObjectId w, username = u, password = h\<rparr>]\<rparr>"
      by blast
    then have "route req = POST_sellers_signup
         \<and> body req ''username'' = Some uv \<and> to_String w uv = Some u
         \<and> body req ''password'' = Some v \<and> bcrypt_hash w v 10 = Some h
         \<and> sellers (snd (app w st req))
             = sellers st @ [\<lparr>seller_id = new_ObjectId w, username = u, password = h\<rparr>]"
      using POST_sellers_signup by (simp add: run)
    then show ?thesis by blast
  qed
next
  case POST_sellers_login
  then have "app w st req = post_sellers_login w st req" by (simp add: app_def)
  then show ?thesis by (simp add: login_store)
next
  case GET_products
  then have "app w st req = get_products w st req" by (simp add: app_def)
  then show ?thesis by (simp add: sellers_after_get)
next
  case POST_products
  then have "app w st req = protected post_products w st req" by (simp add: app_def)
  then show ?thesis by (simp add: sellers_protected sellers_after_post)
next
  case PUT_products_id
  then have "app w st req = protected put_products_id w st req" by (simp add: app_def)
  then show ?thesis by (simp add: sellers_protected sellers_after_put)
next
  case DELETE_products_id
  then have "app w st req = protected delete_products_id w st req" by (simp add: app_def)
  then show ?thesis by (simp add: sellers_protected sellers_after_delete)
qed

lemma products_ignore_password:
  "products (snd (app w st (req\<lparr>body := (body req)(''password'' \<mapsto> v1)\<rparr>)))
     = products (snd (app w st (req\<lparr>body := (body req)(''password'' \<mapsto> v2)\<rparr>)))"
proof (cases "route req = POST_sellers_signup \<or> route req = POST_sellers_login")
  case True
  then show ?thesis
  proof
    assume "route req = POST_sellers_signup"
    then show ?thesis by (simp add: app_def signup_products)
  next
    assume "route req = POST_sellers_login"
    then show ?thesis by (simp add: app_def login_store)
  qed
next
  case False
  then show ?thesis
    by (simp add: product_routes_ignore_password)
qed

text \<open>
  Claim C5. After a signup answered with 201, the store is the store before with one
  new seller record, whose password field is what \<^verbatim>\<open>bcrypt.hash\<close> returned for the
  submitted password at cost factor 10, not the submitted password; nothing else in
  the store has changed. No request to any route changes the sellers in another way,
  and what a request leaves in the products does not depend on its password at all:
  the submitted password is written nowhere. And no response shows the password: two
  requests that differ only in the password get the same response whenever bcrypt
  answers alike for the two passwords (both pass the handler's test or neither,
  hashing fails for both or neither, and they compare alike against the stored hashes).
\<close>

theorem only_password_hashes_stored:
  "(route req = POST_sellers_signup \<and> status (fst (app w st req)) = 201 \<longrightarrow>
      (\<exists>uv u v h. body req ''username'' = Some uv \<and> to_String w uv = Some u
         \<and> body req ''password'' = Some v \<and> bcrypt_hash w v 10 = Some h
         \<and> snd (app w st req)
             = st\<lparr>sellers := sellers st @
                   [\<lparr>seller_id = new_ObjectId w, username = u, password = h\<rparr>]\<rparr>))
   \<and> (sellers (snd (app w st req)) = sellers st
        \<or> (\<exists>uv u v h. route req = POST_sellers_signup
              \<and> body req ''username'' = Some uv \<and> to_String w uv = Some u
              \<and> body req ''password'' = Some v \<and> bcrypt_hash w v 10 = Some h
              \<and> sellers (snd (app w st req))
                  = sellers st @ [\<lparr>seller_id = new_ObjectId w, username = u, password = h\<rparr>]))
   \<and> products (snd (app w st (req\<lparr>body := (body req)(''password'' \<mapsto> v1)\<rparr>)))
       = products (snd (app w st (req\<lparr>body := (body req)(''password'' \<mapsto> v2)\<rparr>)))
   \<and> ((falsy_field (Some v1) \<longleftrightarrow> falsy_field (Some v2))
        \<and> (bcrypt_hash w v1 10 = None \<longleftrightarrow> bcrypt_hash w v2 10 = None)
        \<and> (bcrypt_hash w v1 10 = Some [] \<longleftrightarrow> bcrypt_hash w v2 10 = Some [])
        \<and> (\<forall>s \<in> set (sellers st).
              bcrypt_compare w v1 (password s) = bcrypt_compare w v2 (password s)) \<longrightarrow>
       fst (app w st (req\<lparr>body := (body req)(''password'' \<mapsto> v1)\<rparr>))
         = fst (app w st (req\<lparr>body := (body req)(''password'' \<mapsto> v2)\<rparr>)))"
proof (intro conjI impI)
  assume a: "route req = POST_sellers_signup \<and> status (fst (app w st req)) = 201"
  then have run: "app w st req = post_sellers_signup w st req"
    by (simp add: app_def)
  from a have "status (fst (post_sellers_signup w st req)) = 201"
    by (simp add: run)
  then obtain uv u v h where
    "body req ''username'' = Some uv" "to_String w uv = Some u"
    "body req ''password'' = Some v" "bcrypt_hash w v 10 = Some h"
    "post_sellers_signup w st req =
       (\<lparr>status = 201, sent = Json (JObj [(''message'', JStr ''Seller registered successfully'')])\<rparr>,
        st\<lparr>sellers := sellers st @ [\<lparr>seller_id = new_ObjectId w, username = u, password = h\<rparr>]\<rparr>)"
    using signup_status_201 [of w st req] by blast
  then have "body req ''username'' = Some uv \<and> to_String w uv = Some u
         \<and> body req ''password'' = Some v \<and> bcrypt_hash w v 10 = Some h
         \<and> snd (app w st req)
             = st\<lparr>sellers := sellers st @
                   [\<lparr>seller_id = new_ObjectId w, username = u, password = h\<rparr>]\<rparr>"
    by (simp add: run)
  then show "\<exists>uv u v h. body req ''username'' = Some uv \<and> to_String w uv = Some u
         \<and> body req ''password'' = Some v \<and> bcrypt_hash w v 10 = Some h
         \<and> snd (app w st req)
             = st\<lparr>sellers := sellers st @
                   [\<lparr>seller_id = new_ObjectId w, username = u, password = h\<rparr>]\<rparr>"
    by blast
next
  show "sellers (snd (app w st req)) = sellers st
        \<or> (\<exists>uv u v h. route req = POST_sellers_signup
              \<and> body req ''username'' = Some uv \<and> to_String w uv = Some u
              \<and> body req ''password'' = Some v \<and> bcrypt_hash w v 10 = Some h
              \<and> sellers (snd (app w st req))
                  = sellers st @ [\<lparr>seller_id = new_ObjectId w, username = u, password = h\<rparr>])"
    by (rule sellers_after_request)
next
  show "products (snd (app w st (req\<lparr>body := (body req)(''password'' \<mapsto> v1)\<rparr>)))
       = products (snd (app w st (req\<lparr>body := (body req)(''password'' \<mapsto> v2)\<rparr>)))"
    by (rule products_ignore_password)
next
  assume b: "(falsy_field (Some v1) \<longleftrightarrow> falsy_field (Some v2))
        \<and> (bcrypt_hash w v1 10 = None \<longleftrightarrow> bcrypt_hash w v2 10 = None)
        \<and> (bcrypt_hash w v1 10 = Some [] \<longleftrightarrow> bcrypt_hash w v2 10 = Some [])
        \<and> (\<forall>s \<in> set (sellers st).
              bcrypt_compare w v1 (password s) = bcrypt_compare w v2 (password s))"
  show "fst (app w st (req\<lparr>body := (body req)(''password'' \<mapsto> v1)\<rparr>))
         = fst (app w st (req\<lparr>body := (body req)(''password'' \<mapsto> v2)\<rparr>))"
    by (rule response_password_only_through_bcrypt) (use b in blast)+
qed

text \<open>
  The theorem at the signup of \<^verbatim>\<open>bob\<close>, and at two logins as \<^verbatim>\<open>alice\<close> with
  two different wrong passwords.
\<close>

theorem only_password_hashes_stored_witness:
  "status (fst (app world0 store0
      (request POST_sellers_signup None []
         [(''username'', VStr ''bob''), (''password'', VStr ''hunter2'')])))
     = 201
   \<and> snd (app world0 store0
        (request POST_sellers_signup None []
           [(''username'', VStr ''bob''), (''password'', VStr ''hunter2'')]))
     = \<lparr>sellers = [alice, \<lparr>seller_id = ''65c0000000000000000000ff'', username = ''bob'',
                            password = ''$2b$10$2retnuh''\<rparr>],
        products = [pen, cup]\<rparr>
   \<and> fst (app world0 store0
        (request POST_sellers_login None []
           [(''username'', VStr ''alice''), (''password'', VStr ''letmein'')]))
     = fst (app world0 store0
        (request POST_sellers_login None []
           [(''username'', VStr ''alice''), (''password'', VStr ''123456'')]))"
proof -
  let ?r = "request POST_sellers_signup None []
         [(''username'', VStr ''bob''), (''password'', VStr ''hunter2'')]"
  let ?l = "request POST_sellers_login None [] [(''username'', VStr ''alice'')]"
  have ok: "status (fst (app world0 store0 ?r)) = 201"
    by (simp add: app_def post_sellers_signup_def Seller_save_def
        world0_simps mongoose_simps express_simps)
  have stored: "snd (app world0 store0 ?r)
      = \<lparr>sellers = [alice, \<lparr>seller_id = ''65c0000000000000000000ff'', username = ''bob'',
                            password = ''$2b$10$2retnuh''\<rparr>],
         products = [pen, cup]\<rparr>"
    using only_password_hashes_stored [where req = ?r and w = world0 and st = store0] ok
    by (auto simp: request_def world0_def store0_def fake_hash_def to_String_def)
  have l1: "?l\<lparr>body := (body ?l)(''password'' \<mapsto> VStr ''letmein'')\<rparr>
      = request POST_sellers_login None []
          [(''username'', VStr ''alice''), (''password'', VStr ''letmein'')]"
    by (auto simp: request_def)
  have l2: "?l\<lparr>body := (body ?l)(''password'' \<mapsto> VStr ''123456'')\<rparr>
      = request POST_sellers_login None []
          [(''username'', VStr ''alice''), (''password'', VStr ''123456'')]"
    by (auto simp: request_def)
  have same: "fst (app world0 store0 (?l\<lparr>body := (body ?l)(''password'' \<mapsto> VStr ''letmein'')\<rparr>))
      = fst (app world0 store0 (?l\<lparr>body := (body ?l)(''password'' \<mapsto> VStr ''123456'')\<rparr>))"
    using only_password_hashes_stored [where req = ?l and w = world0 and st = store0
        and ?v1.0 = "VStr ''letmein''" and ?v2.0 = "VStr ''123456''"]
    by (simp add: world0_simps)
  from ok stored same show ?thesis
    by (simp only: l1 l2)
qed

section \<open>Claims about the product routes\<close>

lemma update_first_split:
  "find (\<lambda>q. product_id q = i) ps = Some p \<Longrightarrow>
   \<exists>before after. ps = before @ p # after \<and> i \<notin> product_id ` set before
      \<and> update_first i f ps = before @ f p # after"
proof (induction ps)
  case Nil
  then show ?case by simp
next
  case (Cons q qs)
  show ?case
  proof (cases "product_id q = i")
    case True
    with Cons.prems have "q = p" by simp
    with True have "q # qs = [] @ p # qs \<and> i \<notin> product_id ` set []
        \<and> update_first i f (q # qs) = [] @ f p # qs"
      by simp
    then show ?thesis by blast
  next
    case False
    with Cons.prems have "find (\<lambda>q. product_id q = i) qs = Some p" by simp
    then obtain before after where
      "qs = before @ p # after" "i \<notin> product_id ` set before"
      "update_first i f qs = before @ f p # after"
      using Cons.IH by blast
    with False have "q # qs = (q # before) @ p # after \<and> i \<notin> product_id ` set (q # before)
        \<and> update_first i f (q # qs) = (q # before) @ f p # after"
      by auto
    then show ?thesis by blast
  qed
qed

lemma delete_first_split:
  "find (\<lambda>q. product_id q = i) ps = Some p \<Longrightarrow>
   \<exists>before after. ps = before @ p # after \<and> i \<notin> product_id ` set before
      \<and> delete_first i ps = before @ after"
proof (induction ps)
  case Nil
  then show ?case by simp
next
  case (Cons q qs)
  show ?case
  proof (cases "product_id q = i")
    case True
    with Cons.prems have "q = p" by simp
    with True have "q # qs = [] @ p # qs \<and> i \<notin> product_id ` set []
        \<and> delete_first i (q # qs) = [] @ qs"
      by simp
    then show ?thesis by blast
  next
    case False
    with Cons.prems have "find (\<lambda>q. product_id q = i) qs = Some p" by simp
    then obtain before after where
      "qs = before @ p # after" "i \<notin> product_id ` set before"
      "delete_first i qs = before @ after"
      using Cons.IH by blast
    with False have "q # qs = (q # before) @ p # after \<and> i \<notin> product_id ` set (q # before)
        \<and> delete_first i (q # qs) = (q # before) @ after"
      by auto
    then show ?thesis by blast
  qed
qed

lemma find_product_None: "i \<notin> product_id ` set ps \<Longrightarrow> find (\<lambda>q. product_id q = i) ps = None"
  by (auto simp: find_None_iff)

lemma put_handler_cast_error:
  assumes "body req ''name'' = Some (VStr n)" "n \<noteq> []" "body req ''description'' = Some (VStr d)" "d \<noteq> []"
    and "cast_ObjectId w (params_id req) = None"
  shows "put_products_id w st req =
     (\<lparr>status = 500, sent = Json (JObj [(''error'', JStr ''Failed to update product'')])\<rparr>, st)"
  using assms
  by (simp add: put_products_id_def Product_findByIdAndUpdate_def to_String_VStr falsy_field_VStr field_value_Some status_json_def)

lemma put_handler_not_found:
  assumes "body req ''name'' = Some (VStr n)" "n \<noteq> []" "body req ''description'' = Some (VStr d)" "d \<noteq> []"
    and "cast_ObjectId w (params_id req) = Some i" "\<not> store_throws w"
    and "i \<notin> product_id ` set (products st)"
  shows "put_products_id w st req =
     (\<lparr>status = 404, sent = Json (JObj [(''error'', JStr ''Product not found'')])\<rparr>, st)"
  using assms
  by (simp add: put_products_id_def Product_findByIdAndUpdate_def to_String_VStr falsy_field_VStr field_value_Some status_json_def
      find_product_None)

lemma put_handler_found:
  assumes "body req ''name'' = Some (VStr n)" "n \<noteq> []" "body req ''description'' = Some (VStr d)" "d \<noteq> []"
    and "cast_ObjectId w (params_id req) = Some i" "\<not> store_throws w"
    and "find (\<lambda>q. product_id q = i) (products st) = Some p"
  shows "put_products_id w st req =
     (\<lparr>status = 200,
       sent = Json (JObj [(''message'', JStr ''Product updated successfully''),
                          (''product'', JProduct (p\<lparr>name := n, description := d\<rparr>))])\<rparr>,
      st\<lparr>products := update_first i (\<lambda>q. q\<lparr>name := n, description := d\<rparr>) (products st)\<rparr>)"
  using assms
  by (simp add: put_products_id_def Product_findByIdAndUpdate_def to_String_VStr falsy_field_VStr field_value_Some status_json_def
      res_json_def)

text \<open>
  Claim C6, as the specification states it: an authenticated update with non-empty
  name and description of an id that no product has is answered 404. It is not when
  the id is not an ObjectId: Mongoose rejects the query, and the handler answers 500.
  Here the id is \<^verbatim>\<open>42\<close>.
\<close>

theorem update_unknown_id_counterexample:
  "authenticateToken world0
      (request PUT_products_id (Some ''Bearer tok.alice'') ''42''
         [(''name'', VStr ''Ink''), (''description'', VStr ''Black ink'')])
     = Inr \<lparr>claims = [(''id'', ''65a000000000000000000001''), (''username'', ''alice'')],
            iat = 1000, exp = Some 4600\<rparr>
   \<and> ''42'' \<notin> product_id ` set (products store0)
   \<and> status (fst (app world0 store0
        (request PUT_products_id (Some ''Bearer tok.alice'') ''42''
           [(''name'', VStr ''Ink''), (''description'', VStr ''Black ink'')]))) = 500
   \<and> status (fst (app world0 store0
        (request PUT_products_id (Some ''Bearer tok.alice'') ''42''
           [(''name'', VStr ''Ink''), (''description'', VStr ''Black ink'')]))) \<noteq> 404"
  by (simp add: app_def protected_def authenticateToken_def header_token_def falsy_def val_def
      put_products_id_def Product_findByIdAndUpdate_def world0_simps mongoose_simps express_simps)

text \<open>
  Claim C6, amended. Take an authenticated PUT /api/products/:id with non-empty name
  and description. If the id cannot be cast to an ObjectId, the answer is 500 and the
  store is unchanged. If it can and the database answers: when no product has that id
  the answer is 404 and the store is unchanged; otherwise the first product with that
  id has its name and description overwritten with the supplied values, every other
  product and the sellers are unchanged, and the answer is 200 with the updated record.
\<close>

theorem update_product_when_query_runs:
  assumes "route req = PUT_products_id"
    and "authenticateToken w req = Inr decoded"
    and "body req ''name'' = Some (VStr n)" and "n \<noteq> []"
    and "body req ''description'' = Some (VStr d)" and "d \<noteq> []"
  shows "(cast_ObjectId w (params_id req) = None \<longrightarrow>
            app w st req =
              (\<lparr>status = 500, sent = Json (JObj [(''error'', JStr ''Failed to update product'')])\<rparr>, st))
       \<and> (cast_ObjectId w (params_id req) = Some i \<and> \<not> store_throws w
            \<and> i \<notin> product_id ` set (products st) \<longrightarrow>
            app w st req =
              (\<lparr>status = 404, sent = Json (JObj [(''error'', JStr ''Product not found'')])\<rparr>, st))
       \<and> (cast_ObjectId w (params_id req) = Some i \<and> \<not> store_throws w
            \<and> find (\<lambda>q. product_id q = i) (products st) = Some p \<longrightarrow>
            (\<exists>before after.
               products st = before @ p # after \<and> i \<notin> product_id ` set before
               \<and> app w st req =
                   (\<lparr>status = 200,
                     sent = Json (JObj [(''message'', JStr ''Product updated successfully''),
                                        (''product'', JProduct (p\<lparr>name := n, description := d\<rparr>))])\<rparr>,
                    st\<lparr>products := before @ p\<lparr>name := n, description := d\<rparr> # after\<rparr>)))"
proof -
  let ?req = "req\<lparr>user := Some decoded\<rparr>"
  have run: "app w st req = put_products_id w st ?req"
    using assms(1,2) by (simp add: app_def protected_passes)
  have fields: "body ?req ''name'' = Some (VStr n)" "body ?req ''description'' = Some (VStr d)"
    "params_id ?req = params_id req"
    using assms(3,5) by simp_all
  have c1: "cast_ObjectId w (params_id req) = None \<Longrightarrow>
      app w st req =
        (\<lparr>status = 500, sent = Json (JObj [(''error'', JStr ''Failed to update product'')])\<rparr>, st)"
    using put_handler_cast_error [of ?req n d w st] fields assms(4,6) by (simp add: run)
  have c2: "cast_ObjectId w (params_id req) = Some i \<Longrightarrow> \<not> store_throws w \<Longrightarrow>
      i \<notin> product_id ` set (products st) \<Longrightarrow>
      app w st req =
        (\<lparr>status = 404, sent = Json (JObj [(''error'', JStr ''Product not found'')])\<rparr>, st)"
    using put_handler_not_found [of ?req n d w i st] fields assms(4,6) by (simp add: run)
  have c3: "\<exists>before after.
       products st = before @ p # after \<and> i \<notin> product_id ` set before
       \<and> app w st req =
           (\<lparr>status = 200,
             sent = Json (JObj [(''message'', JStr ''Product updated successfully''),
                                (''product'', JProduct (p\<lparr>name := n, description := d\<rparr>))])\<rparr>,
            st\<lparr>products := before @ p\<lparr>name := n, description := d\<rparr> # after\<rparr>)"
    if c: "cast_ObjectId w (params_id req) = Some i" and up: "\<not> store_throws w"
      and f: "find (\<lambda>q. product_id q = i) (products st) = Some p"
  proof -
    obtain before after where
      s: "products st = before @ p # after" "i \<notin> product_id ` set before"
      "update_first i (\<lambda>q. q\<lparr>name := n, description := d\<rparr>) (products st)
         = before @ p\<lparr>name := n, description := d\<rparr> # after"
      using update_first_split [OF f] by blast
    have "app w st req =
           (\<lparr>status = 200,
             sent = Json (JObj [(''message'', JStr ''Product updated successfully''),
                                (''product'', JProduct (p\<lparr>name := n, description := d\<rparr>))])\<rparr>,
            st\<lparr>products := before @ p\<lparr>name := n, description := d\<rparr> # after\<rparr>)"
      using put_handler_found [of ?req n d w i st p] fields assms(4,6) c up f s(3)
      by (simp add: run)
    with s(1,2) show ?thesis by blast
  qed
  show ?thesis
    using c1 c2 c3 by blast
qed

text \<open>
  The theorem at three updates by \<^verbatim>\<open>alice\<close>: of the id \<^verbatim>\<open>42\<close>, of an ObjectId
  no product has, and of the cup.
\<close>

theorem update_product_when_query_runs_witness:
  "app world0 store0
      (request PUT_products_id (Some ''Bearer tok.alice'') ''42''
         [(''name'', VStr ''Ink''), (''description'', VStr ''Black ink'')])
     = (\<lparr>status = 500, sent = Json (JObj [(''error'', JStr ''Failed to update product'')])\<rparr>, store0)
   \<and> app world0 store0
      (request PUT_products_id (Some ''Bearer tok.alice'') ''65b000000000000000000009''
         [(''name'', VStr ''Ink''), (''description'', VStr ''Black ink'')])
     = (\<lparr>status = 404, sent = Json (JObj [(''error'', JStr ''Product not found'')])\<rparr>, store0)
   \<and> app world0 store0
      (request PUT_products_id (Some ''Bearer tok.alice'') ''65b000000000000000000002''
         [(''name'', VStr ''Ink''), (''description'', VStr ''Black ink'')])
     = (\<lparr>status = 200,
         sent = Json (JObj [(''message'', JStr ''Product updated successfully''),
                  (''product'', JProduct \<lparr>product_id = ''65b000000000000000000002'',
                                          name = ''Ink'', description = ''Black ink''\<rparr>)])\<rparr>,
        \<lparr>sellers = [alice],
         products = [pen, \<lparr>product_id = ''65b000000000000000000002'',
                           name = ''Ink'', description = ''Black ink''\<rparr>]\<rparr>)"
proof -
  let ?tok = "\<lparr>claims = [(''id'', ''65a000000000000000000001''), (''username'', ''alice'')],
            iat = 1000, exp = Some 4600\<rparr>"
  let ?r = "\<lambda>i. request PUT_products_id (Some ''Bearer tok.alice'') i
         [(''name'', VStr ''Ink''), (''description'', VStr ''Black ink'')]"
  have auth: "authenticateToken world0 (?r i) = Inr ?tok" for i
    by (simp add: authenticateToken_def header_token_def falsy_def val_def world0_simps mongoose_simps)
  have fields: "route (?r i) = PUT_products_id" "body (?r i) ''name'' = Some (VStr ''Ink'')"
    "body (?r i) ''description'' = Some (VStr ''Black ink'')" "params_id (?r i) = i" for i
    by (simp_all add: request_def)
  note t = update_product_when_query_runs [OF fields(1) auth fields(2) _ fields(3), where st = store0]
  have a: "app world0 store0 (?r ''42'')
     = (\<lparr>status = 500, sent = Json (JObj [(''error'', JStr ''Failed to update product'')])\<rparr>, store0)"
    using t [where i1 = "''42''"] by (simp add: fields world0_simps mongoose_simps)
  have b: "app world0 store0 (?r ''65b000000000000000000009'')
     = (\<lparr>status = 404, sent = Json (JObj [(''error'', JStr ''Product not found'')])\<rparr>, store0)"
    using t [where i1 = "''65b000000000000000000009''" and i = "''65b000000000000000000009''"]
    by (simp add: fields world0_simps mongoose_simps)
  have "\<exists>before after.
       products store0 = before @ cup # after \<and> ''65b000000000000000000002'' \<notin> product_id ` set before
       \<and> app world0 store0 (?r ''65b000000000000000000002'') =
           (\<lparr>status = 200,
             sent = Json (JObj [(''message'', JStr ''Product updated successfully''),
                      (''product'', JProduct (cup\<lparr>name := ''Ink'', description := ''Black ink''\<rparr>))])\<rparr>,
            store0\<lparr>products := before @ cup\<lparr>name := ''Ink'', description := ''Black ink''\<rparr> # after\<rparr>)"
    using t [where i1 = "''65b000000000000000000002''" and i = "''65b000000000000000000002''"
        and p = cup]
    by (simp add: fields world0_simps mongoose_simps)
  then obtain before after where
    s: "products store0 = before @ cup # after" "''65b000000000000000000002'' \<notin> product_id ` set before"
    and r: "app world0 store0 (?r ''65b000000000000000000002'') =
           (\<lparr>status = 200,
             sent = Json (JObj [(''message'', JStr ''Product updated successfully''),
                      (''product'', JProduct (cup\<lparr>name := ''Ink'', description := ''Black ink''\<rparr>))])\<rparr>,
            store0\<lparr>products := before @ cup\<lparr>name := ''Ink'', description := ''Black ink''\<rparr> # after\<rparr>)"
    by blast
  have "before = [pen] \<and> after = []"
    using s by (cases before; cases "tl before") (auto simp: world0_simps mongoose_simps)
  with r have c: "app world0 store0 (?r ''65b000000000000000000002'')
     = (\<lparr>status = 200,
         sent = Json (JObj [(''message'', JStr ''Product updated successfully''),
                  (''product'', JProduct \<lparr>product_id = ''65b000000000000000000002'',
                                          name = ''Ink'', description = ''Black ink''\<rparr>)])\<rparr>,
        \<lparr>sellers = [alice],
         products = [pen, \<lparr>product_id = ''65b000000000000000000002'',
                           name = ''Ink'', description = ''Black ink''\<rparr>]\<rparr>)"
    by (simp add: store0_def cup_def)
  from a b c show ?thesis by simp
qed

lemma delete_handler_cast_error:
  assumes "cast_ObjectId w (params_id req) = None"
  shows "delete_products_id w st req =
     (\<lparr>status = 500, sent = Json (JObj [(''error'', JStr ''Failed to delete product'')])\<rparr>, st)"
  using assms
  by (simp add: delete_products_id_def Product_findByIdAndDelete_def status_json_def)

lemma delete_handler_not_found:
  assumes "cast_ObjectId w (params_id req) = Some i" "\<not> store_throws w"
    and "i \<notin> product_id ` set (products st)"
  shows "delete_products_id w st req =
     (\<lparr>status = 404, sent = Json (JObj [(''error'', JStr ''Product not found'')])\<rparr>, st)"
  using assms
  by (simp add: delete_products_id_def Product_findByIdAndDelete_def status_json_def
      find_product_None)

lemma delete_handler_found:
  assumes "cast_ObjectId w (params_id req) = Some i" "\<not> store_throws w"
    and "find (\<lambda>q. product_id q = i) (products st) = Some p"
  shows "delete_products_id w st req =
     (\<lparr>status = 200, sent = Json (JObj [(''message'', JStr ''Product deleted successfully'')])\<rparr>,
      st\<lparr>products := delete_first i (products st)\<rparr>)"
  using assms
  by (simp add: delete_products_id_def Product_findByIdAndDelete_def status_json_def res_json_def)

text \<open>
  Claim C7, as the specification states it: an authenticated delete of an id that no
  product has is answered 404. As for the update, it is answered 500 when the id is not
  an ObjectId.
\<close>

theorem delete_unknown_id_counterexample:
  "authenticateToken world0
      (request DELETE_products_id (Some ''Bearer tok.alice'') ''42'' [])
     = Inr \<lparr>claims = [(''id'', ''65a000000000000000000001''), (''username'', ''alice'')],
            iat = 1000, exp = Some 4600\<rparr>
   \<and> ''42'' \<notin> product_id ` set (products store0)
   \<and> status (fst (app world0 store0
        (request DELETE_products_id (Some ''Bearer tok.alice'') ''42'' []))) = 500
   \<and> status (fst (app world0 store0
        (request DELETE_products_id (Some ''Bearer tok.alice'') ''42'' []))) \<noteq> 404"
  by (simp add: app_def protected_def authenticateToken_def header_token_def falsy_def val_def
      delete_products_id_def Product_findByIdAndDelete_def world0_simps mongoose_simps express_simps)

text \<open>
  Claim C7, amended. Take an authenticated DELETE /api/products/:id. If the id cannot
  be cast to an ObjectId, the answer is 500 and the store is unchanged. If it can and
  the database answers: when no product has that id the answer is 404 and the store is
  unchanged; otherwise exactly the first product with that id is removed, every other
  product and the sellers stay, and the answer is 200 with a confirmation message only
  (the deleted record is not in it).
\<close>

theorem delete_product_when_query_runs:
  assumes "route req = DELETE_products_id"
    and "authenticateToken w req = Inr decoded"
  shows "(cast_ObjectId w (params_id req) = None \<longrightarrow>
            app w st req =
              (\<lparr>status = 500, sent = Json (JObj [(''error'', JStr ''Failed to delete product'')])\<rparr>, st))
       \<and> (cast_ObjectId w (params_id req) = Some i \<and> \<not> store_throws w
            \<and> i \<notin> product_id ` set (products st) \<longrightarrow>
            app w st req =
              (\<lparr>status = 404, sent = Json (JObj [(''error'', JStr ''Product not found'')])\<rparr>, st))
       \<and> (cast_ObjectId w (params_id req) = Some i \<and> \<not> store_throws w
            \<and> find (\<lambda>q. product_id q = i) (products st) = Some p \<longrightarrow>
            (\<exists>before after.
               products st = before @ p # after \<and> i \<notin> product_id ` set before
               \<and> app w st req =
                   (\<lparr>status = 200,
                     sent = Json (JObj [(''message'', JStr ''Product deleted successfully'')])\<rparr>,
                    st\<lparr>products := before @ after\<rparr>)))"
proof -
  let ?req = "req\<lparr>user := Some decoded\<rparr>"
  have run: "app w st req = delete_products_id w st ?req"
    using assms by (simp add: app_def protected_passes)
  have id': "params_id ?req = params_id req"
    by simp
  have c1: "cast_ObjectId w (params_id req) = None \<Longrightarrow>
      app w st req =
        (\<lparr>status = 500, sent = Json (JObj [(''error'', JStr ''Failed to delete product'')])\<rparr>, st)"
    using delete_handler_cast_error [of w ?req st] by (simp add: run)
  have c2: "cast_ObjectId w (params_id req) = Some i \<Longrightarrow> \<not> store_throws w \<Longrightarrow>
      i \<notin> product_id ` set (products st) \<Longrightarrow>
      app w st req =
        (\<lparr>status = 404, sent = Json (JObj [(''error'', JStr ''Product not found'')])\<rparr>, st)"
    using delete_handler_not_found [of w ?req i st] by (simp add: run)
  have c3: "\<exists>before after.
       products st = before @ p # after \<and> i \<notin> product_id ` set before
       \<and> app w st req =
           (\<lparr>status = 200,
             sent = Json (JObj [(''message'', JStr ''Product deleted successfully'')])\<rparr>,
            st\<lparr>products := before @ after\<rparr>)"
    if c: "cast_ObjectId w (params_id req) = Some i" and up: "\<not> store_throws w"
      and f: "find (\<lambda>q. product_id q = i) (products st) = Some p"
  proof -
    obtain before after where
      s: "products st = before @ p # after" "i \<notin> product_id ` set before"
      "delete_first i (products st) = before @ after"
      using delete_first_split [OF f] by blast
    have "app w st req =
           (\<lparr>status = 200,
             sent = Json (JObj [(''message'', JStr ''Product deleted successfully'')])\<rparr>,
            st\<lparr>products := before @ after\<rparr>)"
      using delete_handler_found [of w ?req i st p] c up f s(3) by (simp add: run)
    with s(1,2) show ?thesis by blast
  qed
  show ?thesis
    using c1 c2 c3 by blast
qed

text \<open>
  The theorem at three deletes by \<^verbatim>\<open>alice\<close>: of the id \<^verbatim>\<open>42\<close>, of an ObjectId
  no product has, and of the pen.
\<close>

theorem delete_product_when_query_runs_witness:
  "app world0 store0 (request DELETE_products_id (Some ''Bearer tok.alice'') ''42'' [])
     = (\<lparr>status = 500, sent = Json (JObj [(''error'', JStr ''Failed to delete product'')])\<rparr>, store0)
   \<and> app world0 store0
        (request DELETE_products_id (Some ''Bearer tok.alice'') ''65b000000000000000000009'' [])
     = (\<lparr>status = 404, sent = Json (JObj [(''error'', JStr ''Product not found'')])\<rparr>, store0)
   \<and> app world0 store0
        (request DELETE_products_id (Some ''Bearer tok.alice'') ''65b000000000000000000001'' [])
     = (\<lparr>status = 200, sent = Json (JObj [(''message'', JStr ''Product deleted successfully'')])\<rparr>,
        \<lparr>sellers = [alice], products = [cup]\<rparr>)"
proof -
  let ?tok = "\<lparr>claims = [(''id'', ''65a000000000000000000001''), (''username'', ''alice'')],
            iat = 1000, exp = Some 4600\<rparr>"
  let ?r = "\<lambda>i. request DELETE_products_id (Some ''Bearer tok.alice'') i []"
  have auth: "authenticateToken world0 (?r i) = Inr ?tok" for i
    by (simp add: authenticateToken_def header_token_def falsy_def val_def world0_simps mongoose_simps)
  have fields: "route (?r i) = DELETE_products_id" "params_id (?r i) = i" for i
    by (simp_all add: request_def)
  note t = delete_product_when_query_runs [OF fields(1) auth, where st = store0]
  have a: "app world0 store0 (?r ''42'')
     = (\<lparr>status = 500, sent = Json (JObj [(''error'', JStr ''Failed to delete product'')])\<rparr>, store0)"
    using t [where i1 = "''42''"] by (simp add: fields world0_simps mongoose_simps)
  have b: "app world0 store0 (?r ''65b000000000000000000009'')
     = (\<lparr>status = 404, sent = Json (JObj [(''error'', JStr ''Product not found'')])\<rparr>, store0)"
    using t [where i1 = "''65b000000000000000000009''" and i = "''65b000000000000000000009''"]
    by (simp add: fields world0_simps mongoose_simps)
  have "\<exists>before after.
       products store0 = before @ pen # after \<and> ''65b000000000000000000001'' \<notin> product_id ` set before
       \<and> app world0 store0 (?r ''65b000000000000000000001'') =
           (\<lparr>status = 200,
             sent = Json (JObj [(''message'', JStr ''Product deleted successfully'')])\<rparr>,
            store0\<lparr>products := before @ after\<rparr>)"
    using t [where i1 = "''65b000000000000000000001''" and i = "''65b000000000000000000001''"
        and p = pen]
    by (simp add: fields world0_simps mongoose_simps)
  then obtain before after where
    s: "products store0 = before @ pen # after"
    and r: "app world0 store0 (?r ''65b000000000000000000001'') =
           (\<lparr>status = 200,
             sent = Json (JObj [(''message'', JStr ''Product deleted successfully'')])\<rparr>,
            store0\<lparr>products := before @ after\<rparr>)"
    by blast
  have "before = [] \<and> after = [cup]"
    using s by (cases before; cases "tl before") (auto simp: world0_simps mongoose_simps)
  with r have c: "app world0 store0 (?r ''65b000000000000000000001'')
     = (\<lparr>status = 200, sent = Json (JObj [(''message'', JStr ''Product deleted successfully'')])\<rparr>,
        \<lparr>sellers = [alice], products = [cup]\<rparr>)"
    by (simp add: store0_def)
  from a b c show ?thesis by simp
qed

section \<open>Claims about empty fields\<close>

lemma login_missing:
  "falsy_field (body req ''username'') \<or> falsy_field (body req ''password'') \<Longrightarrow>
   post_sellers_login w st req =
     (\<lparr>status = 400, sent = Json (JObj [(''error'', JStr ''Username and password are required'')])\<rparr>,
      st)"
  by (auto simp: post_sellers_login_def status_json_def)

lemma post_products_missing:
  "falsy_field (body req ''name'') \<or> falsy_field (body req ''description'') \<Longrightarrow>
   post_products w st req =
     (\<lparr>status = 400,
       sent = Json (JObj [(''error'', JStr ''Product name and description are required'')])\<rparr>,
      st)"
  by (auto simp: post_products_def status_json_def)

lemma put_products_missing:
  "falsy_field (body req ''name'') \<or> falsy_field (body req ''description'') \<Longrightarrow>
   put_products_id w st req =
     (\<lparr>status = 400,
       sent = Json (JObj [(''error'', JStr ''Product name and description are required'')])\<rparr>,
      st)"
  by (auto simp: put_products_id_def status_json_def)

lemma falsy_either:
  assumes "f = a \<or> f = b" and "body req f = Some (VStr []) \<or> body req f = None"
  shows "falsy_field (body req a) \<or> falsy_field (body req b)"
  using assms by (auto simp: falsy_def)

lemma protected_missing:
  assumes "\<And>r. falsy_field (body r a) \<or> falsy_field (body r b) \<Longrightarrow> handler w st r = (bad, st)"
    and "f = a \<or> f = b" and "body req f = Some (VStr []) \<or> body req f = None"
  shows "protected handler w st req =
           (case authenticateToken w req of Inl res \<Rightarrow> (res, st) | Inr decoded \<Rightarrow> (bad, st))"
proof (cases "authenticateToken w req")
  case (Inl res)
  then show ?thesis by (simp add: protected_def)
next
  case (Inr decoded)
  have "falsy_field (body (req\<lparr>user := Some decoded\<rparr>) a) \<or> falsy_field (body (req\<lparr>user := Some decoded\<rparr>) b)"
    using falsy_either [OF assms(2), of req] assms(3) by simp
  then have "handler w st (req\<lparr>user := Some decoded\<rparr>) = (bad, st)"
    by (rule assms(1))
  with Inr show ?thesis by (simp add: protected_def)
qed

lemma empty_field_result:
  assumes "f \<in> set (required_fields (route req))"
    and "body req f = Some (VStr []) \<or> body req f = None"
  shows "app w st req =
     (case route req of
        POST_sellers_signup \<Rightarrow>
          (\<lparr>status = 400,
            sent = Json (JObj [(''error'', JStr ''Username and password are required'')])\<rparr>, st)
      | POST_sellers_login \<Rightarrow>
          (\<lparr>status = 400,
            sent = Json (JObj [(''error'', JStr ''Username and password are required'')])\<rparr>, st)
      | _ \<Rightarrow>
          (case authenticateToken w req of
             Inl res \<Rightarrow> (res, st)
           | Inr decoded \<Rightarrow>
               (\<lparr>status = 400,
                 sent = Json (JObj [(''error'',
                          JStr ''Product name and description are required'')])\<rparr>, st)))"
proof (cases "route req")
  case POST_sellers_signup
  with assms have "falsy_field (body req ''username'') \<or> falsy_field (body req ''password'')"
    by (intro falsy_either [where f = f]) (simp_all add: required_fields_def)
  with POST_sellers_signup show ?thesis
    by (simp add: app_def signup_missing)
next
  case POST_sellers_login
  with assms have "falsy_field (body req ''username'') \<or> falsy_field (body req ''password'')"
    by (intro falsy_either [where f = f]) (simp_all add: required_fields_def)
  with POST_sellers_login show ?thesis
    by (simp add: app_def login_missing)
next
  case GET_products
  with assms(1) show ?thesis by (simp add: required_fields_def)
next
  case POST_products
  with assms(1) have f: "f = ''name'' \<or> f = ''description''"
    by (simp add: required_fields_def)
  show ?thesis
    using protected_missing [of "''name''" "''description''" post_products w st _ f req,
        OF post_products_missing f assms(2)] POST_products
    by (simp add: app_def)
next
  case PUT_products_id
  with assms(1) have f: "f = ''name'' \<or> f = ''description''"
    by (simp add: required_fields_def)
  show ?thesis
    using protected_missing [of "''name''" "''description''" put_products_id w st _ f req,
        OF put_products_missing f assms(2)] PUT_products_id
    by (simp add: app_def)
next
  case DELETE_products_id
  with assms(1) show ?thesis by (simp add: required_fields_def)
qed

text \<open>
  Claim C10, as the specification states it: every request to signup, login,
  add-product or update-product with a required field equal to the empty string is
  answered 400. Not every one: on the two product routes the middleware runs first,
  and an add-product without a token is answered 401 whatever its fields are.
\<close>

theorem empty_field_counterexample:
  "''name'' \<in> set (required_fields POST_products)
   \<and> map_of [(''name'', VStr []), (''description'', VStr ''Black ink'')] ''name'' = Some (VStr [])
   \<and> status (fst (app world0 store0
        (request POST_products None [] [(''name'', VStr []), (''description'', VStr ''Black ink'')]))) = 401
   \<and> status (fst (app world0 store0
        (request POST_products None [] [(''name'', VStr []), (''description'', VStr ''Black ink'')]))) \<noteq> 400"
  by (simp add: app_def protected_def authenticateToken_def header_token_def falsy_def
      request_def required_fields_def express_simps)

text \<open>
  Claim C10, amended. For a request to signup, login, add-product or update-product in
  which a required field is the empty string, the outcome is exactly the outcome of
  the same request with that field missing, and the store is unchanged. The answer is
  400 for signup and login, and for the two product routes when the request passes the
  authentication middleware; when it does not, the answer is the middleware's 401 or
  403.
\<close>

theorem empty_field_as_missing:
  assumes "f \<in> set (required_fields (route req))" and "body req f = Some (VStr [])"
  shows "app w st req = app w st (req\<lparr>body := (body req)(f := None)\<rparr>)
       \<and> snd (app w st req) = st
       \<and> (route req = POST_sellers_signup \<or> route req = POST_sellers_login
            \<or> authenticateToken w req = Inr decoded \<longrightarrow>
          status (fst (app w st req)) = 400)
       \<and> (authenticateToken w req = Inl res
            \<and> (route req = POST_products \<or> route req = PUT_products_id) \<longrightarrow>
          fst (app w st req) = res)"
proof -
  let ?req = "req\<lparr>body := (body req)(f := None)\<rparr>"
  note here = empty_field_result [of f req w st]
  have there: "app w st ?req = (case route req of
        POST_sellers_signup \<Rightarrow>
          (\<lparr>status = 400,
            sent = Json (JObj [(''error'', JStr ''Username and password are required'')])\<rparr>, st)
      | POST_sellers_login \<Rightarrow>
          (\<lparr>status = 400,
            sent = Json (JObj [(''error'', JStr ''Username and password are required'')])\<rparr>, st)
      | _ \<Rightarrow>
          (case authenticateToken w req of
             Inl res \<Rightarrow> (res, st)
           | Inr decoded \<Rightarrow>
               (\<lparr>status = 400,
                 sent = Json (JObj [(''error'',
                          JStr ''Product name and description are required'')])\<rparr>, st)))"
  proof -
    have r: "route ?req = route req" and a: "authenticateToken w ?req = authenticateToken w req"
      by (simp_all add: authenticateToken_ignores_body)
    have 1: "f \<in> set (required_fields (route ?req))"
      using assms(1) by simp
    have 2: "body ?req f = Some (VStr []) \<or> body ?req f = None"
      by simp
    show ?thesis
      using empty_field_result [OF 1 2, of w st] unfolding r a .
  qed
  have same: "app w st req = app w st ?req"
    using here there assms by simp
  have unchanged: "snd (app w st req) = st"
    using here assms by (simp split: route.splits sum.splits)
  have bad: "status (fst (app w st req)) = 400"
    if "route req = POST_sellers_signup \<or> route req = POST_sellers_login
            \<or> authenticateToken w req = Inr decoded"
    using here assms that by (auto split: route.splits)
  have gate: "fst (app w st req) = res"
    if "authenticateToken w req = Inl res \<and> (route req = POST_products \<or> route req = PUT_products_id)"
    using here assms that by auto
  show ?thesis
    using same unchanged bad gate by blast
qed

text \<open>
  The theorem at a signup with an empty password, an authenticated update with an empty
  description, and an add-product with an empty name and a token that does not verify.
\<close>

theorem empty_field_as_missing_witness:
  "app world0 store0
      (request POST_sellers_signup None [] [(''username'', VStr ''bob''), (''password'', VStr [])])
     = app world0 store0 (request POST_sellers_signup None [] [(''username'', VStr ''bob'')])
   \<and> snd (app world0 store0
        (request POST_sellers_signup None [] [(''username'', VStr ''bob''), (''password'', VStr [])])) = store0
   \<and> status (fst (app world0 store0
        (request POST_sellers_signup None [] [(''username'', VStr ''bob''), (''password'', VStr [])]))) = 400
   \<and> status (fst (app world0 store0
        (request PUT_products_id (Some ''Bearer tok.alice'') ''65b000000000000000000001''
           [(''name'', VStr ''Quill''), (''description'', VStr [])]))) = 400
   \<and> fst (app world0 store0
        (request POST_products (Some ''Bearer tok.mallory'') []
           [(''name'', VStr []), (''description'', VStr ''Black ink'')]))
     = \<lparr>status = 403, sent = Text ''Forbidden''\<rparr>"
proof -
  let ?r1 = "request POST_sellers_signup None [] [(''username'', VStr ''bob''), (''password'', VStr [])]"
  let ?r2 = "request PUT_products_id (Some ''Bearer tok.alice'') ''65b000000000000000000001''
           [(''name'', VStr ''Quill''), (''description'', VStr [])]"
  let ?r3 = "request POST_products (Some ''Bearer tok.mallory'') []
           [(''name'', VStr []), (''description'', VStr ''Black ink'')]"
  let ?tok = "\<lparr>claims = [(''id'', ''65a000000000000000000001''), (''username'', ''alice'')],
            iat = 1000, exp = Some 4600\<rparr>"
  have a2: "authenticateToken world0 ?r2 = Inr ?tok"
    by (simp add: authenticateToken_def header_token_def falsy_def val_def world0_simps mongoose_simps)
  have a3: "authenticateToken world0 ?r3 = Inl \<lparr>status = 403, sent = Text ''Forbidden''\<rparr>"
    by (simp add: authenticateToken_def header_token_def falsy_def val_def world0_simps mongoose_simps express_simps)
  have b1: "?r1\<lparr>body := (body ?r1)(''password'' := None)\<rparr>
      = request POST_sellers_signup None [] [(''username'', VStr ''bob'')]"
    by (auto simp: request_def)
  have f1: "''password'' \<in> set (required_fields (route ?r1))" "body ?r1 ''password'' = Some (VStr [])"
    by (simp_all add: request_def required_fields_def)
  have f2: "''description'' \<in> set (required_fields (route ?r2))" "body ?r2 ''description'' = Some (VStr [])"
    by (simp_all add: request_def required_fields_def)
  have f3: "''name'' \<in> set (required_fields (route ?r3))" "body ?r3 ''name'' = Some (VStr [])"
    "route ?r3 = POST_products"
    by (simp_all add: request_def required_fields_def)
  have r1: "route ?r1 = POST_sellers_signup"
    by (simp add: request_def)
  note t1 = empty_field_as_missing [OF f1, of world0 store0]
  note t2 = empty_field_as_missing [OF f2, of world0 store0 ?tok]
  note t3 = empty_field_as_missing [OF f3(1,2), of world0 store0 _
      "\<lparr>status = 403, sent = Text ''Forbidden''\<rparr>"]
  have x: "app world0 store0 ?r1
      = app world0 store0 (request POST_sellers_signup None [] [(''username'', VStr ''bob'')])"
    using t1 unfolding b1 by blast
  have x2: "snd (app world0 store0 ?r1) = store0"
    using t1 by blast
  have x3: "status (fst (app world0 store0 ?r1)) = 400"
    using t1 r1 by blast
  have y: "status (fst (app world0 store0 ?r2)) = 400"
    using t2 a2 by blast
  have z: "fst (app world0 store0 ?r3) = \<lparr>status = 403, sent = Text ''Forbidden''\<rparr>"
    using t3 a3 f3(3) by blast
  from x x2 x3 y z show ?thesis
    by blast
qed

end
